theory Spec2Isabelle
  imports Main "HOL-Library.Multiset" "HOL-Library.Char_ord" "HOL-Library.List_Lexorder"
begin

section \<open>Source spans and text spans\<close>

text \<open>
  The language service of \<^verbatim>\<open>packages/language-service/ivy/utils.ts\<close> works on two
  kinds of source span. An \<^verbatim>\<open>AbsoluteSourceSpan\<close> holds two raw offsets; a
  \<^verbatim>\<open>ParseSourceSpan\<close> holds two locations, each with the file it lies in and an
  offset. Offsets are JavaScript numbers holding integers: they are \<open>int\<close> here, so that
  \<open>end - start\<close> is the subtraction the code performs and not a truncated one.
\<close>

record AbsoluteSourceSpan =
  abs_start :: int
  abs_end :: int

record ParseSourceFile =
  content :: string
  url :: string

record ParseLocation =
  loc_file :: ParseSourceFile
  offset :: int

record ParseSourceSpan =
  start_loc :: ParseLocation
  end_loc :: ParseLocation

text \<open>The union type \<^verbatim>\<open>AbsoluteSourceSpan|ParseSourceSpan\<close>, told apart by \<^verbatim>\<open>instanceof\<close>.\<close>

datatype SourceSpan = Absolute AbsoluteSourceSpan | Parsed ParseSourceSpan

text \<open>\<^verbatim>\<open>ts.TextSpan\<close>: the object \<^verbatim>\<open>{start, length}\<close>.\<close>

record TextSpan =
  ts_start :: int
  ts_length :: int

fun toTextSpan :: "SourceSpan \<Rightarrow> TextSpan" where
  "toTextSpan (Absolute span) =
     (let start = abs_start span; end = abs_end span
      in \<lparr>ts_start = start, ts_length = end - start\<rparr>)"
| "toTextSpan (Parsed span) =
     (let start = offset (start_loc span); end = offset (end_loc span)
      in \<lparr>ts_start = start, ts_length = end - start\<rparr>)"

subsection \<open>Nodes of the two syntax trees\<close>

text \<open>
  \<^verbatim>\<open>getTextSpanOfNode\<close> takes a node of the template tree (\<^verbatim>\<open>t.Node\<close>) or of the
  expression tree (\<^verbatim>\<open>e.AST\<close>). What it reads of a node is: its \<^verbatim>\<open>sourceSpan\<close> (a
  \<^verbatim>\<open>ParseSourceSpan\<close> on a template node, an \<^verbatim>\<open>AbsoluteSourceSpan\<close> on an expression
  node), whether the node owns a property \<^verbatim>\<open>keySpan\<close>, which of the four classes
  \<^verbatim>\<open>PropertyWrite\<close>, \<^verbatim>\<open>MethodCall\<close>, \<^verbatim>\<open>BindingPipe\<close>, \<^verbatim>\<open>PropertyRead\<close> it is an
  instance of, and the \<^verbatim>\<open>nameSpan\<close> those four carry. A template node is
  \<open>TemplateNode sourceSpan keySpan\<close>, with \<open>None\<close> for a node that has no own
  \<^verbatim>\<open>keySpan\<close>; the interface \<^verbatim>\<open>NodeWithKeyAndValue\<close> of the source types an own
  \<^verbatim>\<open>keySpan\<close> as a \<^verbatim>\<open>ParseSourceSpan\<close>. An expression node is one of the four named
  classes, \<open>C sourceSpan nameSpan\<close>, or \<open>OtherAST sourceSpan\<close>.
\<close>

datatype Node =
    TemplateNode ParseSourceSpan "ParseSourceSpan option"
  | PropertyWrite AbsoluteSourceSpan AbsoluteSourceSpan
  | MethodCall AbsoluteSourceSpan AbsoluteSourceSpan
  | BindingPipe AbsoluteSourceSpan AbsoluteSourceSpan
  | PropertyRead AbsoluteSourceSpan AbsoluteSourceSpan
  | OtherAST AbsoluteSourceSpan

fun sourceSpan :: "Node \<Rightarrow> SourceSpan" where
  "sourceSpan (TemplateNode src key) = Parsed src"
| "sourceSpan (PropertyWrite src name) = Absolute src"
| "sourceSpan (MethodCall src name) = Absolute src"
| "sourceSpan (BindingPipe src name) = Absolute src"
| "sourceSpan (PropertyRead src name) = Absolute src"
| "sourceSpan (OtherAST src) = Absolute src"

fun keySpan :: "Node \<Rightarrow> ParseSourceSpan option" where
  "keySpan (TemplateNode src key) = key"
| "keySpan node = None"

fun nameSpan :: "Node \<Rightarrow> AbsoluteSourceSpan option" where
  "nameSpan (PropertyWrite src name) = Some name"
| "nameSpan (MethodCall src name) = Some name"
| "nameSpan (BindingPipe src name) = Some name"
| "nameSpan (PropertyRead src name) = Some name"
| "nameSpan node = None"

text \<open>\<^verbatim>\<open>node.sourceSpan instanceof ParseSourceSpan\<close>\<close>

definition isTemplateNode :: "Node \<Rightarrow> bool" where
  "isTemplateNode node = (case sourceSpan node of Parsed span \<Rightarrow> True | Absolute span \<Rightarrow> False)"

text \<open>\<^verbatim>\<open>isTemplateNode(node) && node.hasOwnProperty('keySpan')\<close>\<close>

definition isTemplateNodeWithKeyAndValue :: "Node \<Rightarrow> bool" where
  "isTemplateNodeWithKeyAndValue node = (isTemplateNode node \<and> keySpan node \<noteq> None)"

fun getTextSpanOfNode :: "Node \<Rightarrow> TextSpan" where
  "getTextSpanOfNode (TemplateNode src (Some key)) = toTextSpan (Parsed key)"
| "getTextSpanOfNode (PropertyWrite src name) = toTextSpan (Absolute name)"
| "getTextSpanOfNode (MethodCall src name) = toTextSpan (Absolute name)"
| "getTextSpanOfNode (BindingPipe src name) = toTextSpan (Absolute name)"
| "getTextSpanOfNode (PropertyRead src name) = toTextSpan (Absolute name)"
| "getTextSpanOfNode node = toTextSpan (sourceSpan node)"

section \<open>Locating the template of a position\<close>

text \<open>
  A TypeScript syntax node, as far as the locator reads it: its kind (what
  \<^verbatim>\<open>ts.isClassDeclaration\<close> tests), the name of the file it is declared in
  (\<^verbatim>\<open>getSourceFile().fileName\<close>), its full range \<^verbatim>\<open>pos\<close>..\<^verbatim>\<open>end\<close>, and the nodes nested
  in it.
\<close>

datatype SyntaxKind = ClassDeclaration | FunctionDeclaration | VariableStatement | OtherSyntaxKind

datatype TsNode =
  TsNode (syntaxKind: SyntaxKind) (sourceFileName: string) (pos: int) (end_pos: int)
    (children: "TsNode list")

definition isClassDeclaration :: "TsNode \<Rightarrow> bool" where
  "isClassDeclaration node = (syntaxKind node = ClassDeclaration)"

text \<open>\<^verbatim>\<open>getFullStart()\<close> of the TypeScript API returns the node's \<^verbatim>\<open>pos\<close>.\<close>

definition getFullStart :: "TsNode \<Rightarrow> int" where
  "getFullStart node = pos node"

record SourceFile =
  fileName :: string
  statements :: "TsNode list"

record TemplateInfo =
  template :: "Node list"
  component :: TsNode

text \<open>
  The compiler is consumed through three lookups: \<^verbatim>\<open>getTemplateTypeChecker().getTemplate\<close>
  (\<open>None\<close> is \<^verbatim>\<open>null\<close>), \<^verbatim>\<open>getComponentsWithTemplateFile\<close> (the declarations in the
  order \<^verbatim>\<open>Array.from\<close> lists them) and \<^verbatim>\<open>getNextProgram().getSourceFile\<close> (\<open>None\<close> is
  \<^verbatim>\<open>undefined\<close>).
\<close>

record NgCompiler =
  getTemplate :: "TsNode \<Rightarrow> Node list option"
  getComponentsWithTemplateFile :: "string \<Rightarrow> TsNode list"
  getSourceFile :: "string \<Rightarrow> SourceFile option"

text \<open>
  Strings compare by \<^verbatim>\<open><\<close> and \<^verbatim>\<open>>\<close> lexicographically, code unit by code unit: the
  order of \<open>string\<close> here.
\<close>

definition tsDeclarationSortComparator :: "TsNode \<Rightarrow> TsNode \<Rightarrow> int" where
  "tsDeclarationSortComparator a b =
     (let aFile = sourceFileName a; bFile = sourceFileName b
      in if aFile < bFile then - 1
         else if aFile > bFile then 1
         else getFullStart b - getFullStart a)"

text \<open>
  \<^verbatim>\<open>Array.prototype.sort\<close> with a comparator is a stable sort: an element goes before
  another when the comparator is negative, and elements that compare equal keep their
  order. It is modelled as a stable insertion sort.
\<close>

fun sort_insert :: "('a \<Rightarrow> 'a \<Rightarrow> int) \<Rightarrow> 'a \<Rightarrow> 'a list \<Rightarrow> 'a list" where
  "sort_insert cmp x [] = [x]"
| "sort_insert cmp x (y # ys) =
     (if cmp x y \<le> 0 then x # y # ys else y # sort_insert cmp x ys)"

definition array_sort :: "('a \<Rightarrow> 'a \<Rightarrow> int) \<Rightarrow> 'a list \<Rightarrow> 'a list" where
  "array_sort cmp xs = foldr (sort_insert cmp) xs []"

text \<open>The \<^verbatim>\<open>for\<close> loop of \<^verbatim>\<open>getFirstComponentForTemplateFile\<close>.\<close>

fun firstComponentLoop :: "(TsNode \<Rightarrow> Node list option) \<Rightarrow> TsNode list \<Rightarrow> TemplateInfo option" where
  "firstComponentLoop getTpl [] = None"
| "firstComponentLoop getTpl (decl # rest) =
     (if \<not> isClassDeclaration decl then firstComponentLoop getTpl rest
      else case getTpl decl of
             None \<Rightarrow> firstComponentLoop getTpl rest
           | Some tpl \<Rightarrow> Some \<lparr>template = tpl, component = decl\<rparr>)"

definition getFirstComponentForTemplateFile :: "string \<Rightarrow> NgCompiler \<Rightarrow> TemplateInfo option" where
  "getFirstComponentForTemplateFile fname compiler =
     (let components = getComponentsWithTemplateFile compiler fname;
          sortedComponents = array_sort tsDeclarationSortComparator components
      in firstComponentLoop (getTemplate compiler) sortedComponents)"

text \<open>The \<^verbatim>\<open>for\<close> loop of \<^verbatim>\<open>getInlineTemplateInfoAtPosition\<close>.\<close>

fun inlineLoop :: "(TsNode \<Rightarrow> Node list option) \<Rightarrow> int \<Rightarrow> TsNode list \<Rightarrow> TemplateInfo option" where
  "inlineLoop getTpl position [] = None"
| "inlineLoop getTpl position (statement # rest) =
     (if \<not> isClassDeclaration statement \<or> position < pos statement \<or> position > end_pos statement
      then inlineLoop getTpl position rest
      else case getTpl statement of
             None \<Rightarrow> None
           | Some tpl \<Rightarrow> Some \<lparr>template = tpl, component = statement\<rparr>)"

definition getInlineTemplateInfoAtPosition :: "string \<Rightarrow> int \<Rightarrow> NgCompiler \<Rightarrow> TemplateInfo option" where
  "getInlineTemplateInfoAtPosition fname position compiler =
     (case getSourceFile compiler fname of
        None \<Rightarrow> None
      | Some sourceFile \<Rightarrow> inlineLoop (getTemplate compiler) position (statements sourceFile))"

definition endsWith :: "string \<Rightarrow> string \<Rightarrow> bool" where
  "endsWith s suffix =
     (length suffix \<le> length s \<and> drop (length s - length suffix) s = suffix)"

definition getTemplateInfoAtPosition :: "string \<Rightarrow> int \<Rightarrow> NgCompiler \<Rightarrow> TemplateInfo option" where
  "getTemplateInfoAtPosition fname position compiler =
     (if endsWith fname ''.ts'' then getInlineTemplateInfoAtPosition fname position compiler
      else getFirstComponentForTemplateFile fname compiler)"

section \<open>Attributing directive matches to a tag or an attribute\<close>

text \<open>
  A \<^verbatim>\<open>t.TextAttribute\<close> or \<^verbatim>\<open>t.BoundAttribute\<close>, as far as it is read: its name and its
  optional \<^verbatim>\<open>valueSpan\<close>.
\<close>

record Attribute =
  name :: string
  valueSpan :: "ParseSourceSpan option"

text \<open>
  The host node is a \<^verbatim>\<open>t.Element\<close> (\<^verbatim>\<open>name\<close>, \<^verbatim>\<open>attributes\<close>, \<^verbatim>\<open>inputs\<close>) or a
  \<^verbatim>\<open>t.Template\<close> (\<^verbatim>\<open>tagName\<close>, \<^verbatim>\<open>attributes\<close>, \<^verbatim>\<open>inputs\<close>, \<^verbatim>\<open>templateAttrs\<close>).
\<close>

datatype HostNode =
    Element string "Attribute list" "Attribute list"
  | Template string "Attribute list" "Attribute list" "Attribute list"

text \<open>
  A \<^verbatim>\<open>DirectiveSymbol\<close> is compared by object identity in a \<^verbatim>\<open>Set\<close>; \<open>tsSymbol\<close> stands
  for that identity, and \<open>selector\<close> is \<open>None\<close> for \<^verbatim>\<open>null\<close>.
\<close>

record DirectiveSymbol =
  tsSymbol :: nat
  selector :: "string option"

text \<open>
  \<^verbatim>\<open>String.prototype.substring\<close>: both indices are clamped to the string and swapped
  when the first is the larger.
\<close>

definition substring :: "string \<Rightarrow> int \<Rightarrow> int \<Rightarrow> string" where
  "substring s a b =
     (let n = int (length s);
          a' = max 0 (min a n);
          b' = max 0 (min b n);
          lo = min a' b';
          hi = max a' b'
      in take (nat (hi - lo)) (drop (nat lo) s))"

text \<open>
  Modelled from the spec: \<^verbatim>\<open>ParseSourceSpan.toString\<close> belongs to the compiler package and
  is absent from the sources at hand; the spec calls its result the attribute's value text.
  It is the text of the span's file between the two offsets.
\<close>

definition ParseSourceSpan_toString :: "ParseSourceSpan \<Rightarrow> string" where
  "ParseSourceSpan_toString span =
     substring (content (loc_file (start_loc span))) (offset (start_loc span)) (offset (end_loc span))"

definition toAttributeString :: "Attribute \<Rightarrow> string" where
  "toAttributeString attribute =
     ''['' @ name attribute @ ''='' @
     (case valueSpan attribute of None \<Rightarrow> [] | Some span \<Rightarrow> ParseSourceSpan_toString span) @ '']''"

fun getNodeName :: "HostNode \<Rightarrow> string" where
  "getNodeName (Template tagName attributes inputs templateAttrs) = tagName"
| "getNodeName (Element elName attributes inputs) = elName"

fun getAttributes :: "HostNode \<Rightarrow> Attribute list" where
  "getAttributes (Template tagName attributes inputs templateAttrs) =
     (attributes @ inputs) @ templateAttrs"
| "getAttributes (Element elName attributes inputs) = attributes @ inputs"

subsection \<open>Sets\<close>

text \<open>
  A JavaScript \<^verbatim>\<open>Set\<close> keeps its elements once each, in insertion order: a list without
  duplicates. \<^verbatim>\<open>new Set(xs)\<close> adds the elements of \<open>xs\<close> one by one.
\<close>

definition Set_has :: "'a list \<Rightarrow> 'a \<Rightarrow> bool" where
  "Set_has s x = (x \<in> set s)"

definition Set_add :: "'a list \<Rightarrow> 'a \<Rightarrow> 'a list" where
  "Set_add s x = (if Set_has s x then s else s @ [x])"

definition new_Set :: "'a list \<Rightarrow> 'a list" where
  "new_Set xs = foldl Set_add [] xs"

definition difference :: "'a list \<Rightarrow> 'a list \<Rightarrow> 'a list" where
  "difference left right =
     foldl (\<lambda>result dir. if \<not> Set_has right dir then Set_add result dir else result) [] left"

subsection \<open>Matching\<close>

text \<open>
  The selector parser and matcher belong to the compiler package and are parameters here:
  \<open>parse\<close> is \<^verbatim>\<open>CssSelector.parse\<close>, and \<open>matches selectables sel\<close> is the result of
  \<^verbatim>\<open>matcher.match(sel, null)\<close> on a fresh \<^verbatim>\<open>SelectorMatcher\<close> to which \<open>selectables\<close> were
  added.
\<close>

definition getDirectiveMatchesForSelector ::
  "(string \<Rightarrow> 's list) \<Rightarrow> ('s list \<Rightarrow> 's \<Rightarrow> bool) \<Rightarrow> DirectiveSymbol list \<Rightarrow> string \<Rightarrow> DirectiveSymbol list" where
  "getDirectiveMatchesForSelector parse matches directives selectorText =
     (let selectors = parse selectorText
      in if length selectors = 0 then new_Set []
         else new_Set (filter (\<lambda>dir.
                case selector dir of
                  None \<Rightarrow> False
                | Some dirSelector \<Rightarrow> list_ex (\<lambda>sel. matches (parse dirSelector) sel) selectors)
              directives))"

definition getDirectiveMatchesForElementTag ::
  "(string \<Rightarrow> 's list) \<Rightarrow> ('s list \<Rightarrow> 's \<Rightarrow> bool) \<Rightarrow> HostNode \<Rightarrow> DirectiveSymbol list \<Rightarrow> DirectiveSymbol list" where
  "getDirectiveMatchesForElementTag parse matches element directives =
     (let attributes = getAttributes element;
          allAttrs = map toAttributeString attributes;
          allDirectiveMatches =
            getDirectiveMatchesForSelector parse matches directives (getNodeName element @ concat allAttrs);
          matchesWithoutElement =
            getDirectiveMatchesForSelector parse matches directives (concat allAttrs)
      in difference allDirectiveMatches matchesWithoutElement)"

definition getDirectiveMatchesForAttribute ::
  "(string \<Rightarrow> 's list) \<Rightarrow> ('s list \<Rightarrow> 's \<Rightarrow> bool) \<Rightarrow> string \<Rightarrow> HostNode \<Rightarrow> DirectiveSymbol list \<Rightarrow> DirectiveSymbol list" where
  "getDirectiveMatchesForAttribute parse matches attrName hostNode directives =
     (let attributes = getAttributes hostNode;
          allAttrs = map toAttributeString attributes;
          allDirectiveMatches =
            getDirectiveMatchesForSelector parse matches directives (getNodeName hostNode @ concat allAttrs);
          attrsExcludingName = map toAttributeString (filter (\<lambda>a. name a \<noteq> attrName) attributes);
          matchesWithoutAttr =
            getDirectiveMatchesForSelector parse matches directives (concat attrsExcludingName)
      in difference allDirectiveMatches matchesWithoutAttr)"

section \<open>Filtering alias imports out of display parts\<close>

record SymbolDisplayPart =
  kind :: string
  "text" :: string

text \<open>
  Modelled from the spec: the constants \<^verbatim>\<open>ALIAS_NAME\<close> and \<^verbatim>\<open>SYMBOL_PUNC\<close> are imported
  from \<^verbatim>\<open>../common/quick_info\<close>, absent from the sources at hand; the spec calls them the
  alias-name kind and the punctuation kind. They are the names of the TypeScript display
  part kinds.
\<close>

definition ALIAS_NAME :: string where
  "ALIAS_NAME = ''aliasName''"

definition SYMBOL_PUNC :: string where
  "SYMBOL_PUNC = ''punctuation''"

definition isDigit :: "char \<Rightarrow> bool" where
  "isDigit c = (c \<in> set ''0123456789'')"

text \<open>
  \<^verbatim>\<open>/i\d+/.test(text)\<close>: the pattern has no anchor, so the test looks for a match starting
  at any position; a match is the letter \<^verbatim>\<open>i\<close> and at least one digit right after it.
\<close>

fun regexMatchesAt :: "string \<Rightarrow> bool" where
  "regexMatchesAt (c # d # cs) = (c = CHR ''i'' \<and> isDigit d)"
| "regexMatchesAt cs = False"

fun tcbAliasImportRegex_test :: "string \<Rightarrow> bool" where
  "tcbAliasImportRegex_test [] = False"
| "tcbAliasImportRegex_test (c # cs) = (regexMatchesAt (c # cs) \<or> tcbAliasImportRegex_test cs)"

definition isImportAlias :: "SymbolDisplayPart \<Rightarrow> bool" where
  "isImportAlias part = (kind part = ALIAS_NAME \<and> tcbAliasImportRegex_test (text part))"

definition isDotPunctuation :: "SymbolDisplayPart \<Rightarrow> bool" where
  "isDotPunctuation part = (kind part = SYMBOL_PUNC \<and> text part = ''.'')"

text \<open>Reading an array at an index: \<open>None\<close> is \<^verbatim>\<open>undefined\<close>, also at index \<open>-1\<close>.\<close>

definition at_index :: "'a list \<Rightarrow> int \<Rightarrow> 'a option" where
  "at_index xs i = (if 0 \<le> i \<and> i < int (length xs) then Some (xs ! nat i) else None)"

definition keepPart :: "SymbolDisplayPart list \<Rightarrow> int \<Rightarrow> SymbolDisplayPart \<Rightarrow> bool" where
  "keepPart displayParts i part =
     (let previousPart = at_index displayParts (i - 1);
          nextPart = at_index displayParts (i + 1);
          aliasNameFollowedByDot =
            (isImportAlias part \<and> (case nextPart of None \<Rightarrow> False | Some n \<Rightarrow> isDotPunctuation n));
          dotPrecededByAlias =
            (isDotPunctuation part \<and> (case previousPart of None \<Rightarrow> False | Some p \<Rightarrow> isImportAlias p))
      in \<not> aliasNameFollowedByDot \<and> \<not> dotPrecededByAlias)"

definition filterAliasImports :: "SymbolDisplayPart list \<Rightarrow> SymbolDisplayPart list" where
  "filterAliasImports displayParts =
     map snd (filter (\<lambda>(i, part). keepPart displayParts i part)
                (zip (map int [0..<length displayParts]) displayParts))"

section \<open>A stand-in for the selector capability\<close>

text \<open>
  Modelled from the spec: \<^verbatim>\<open>CssSelector.parse\<close> and \<^verbatim>\<open>SelectorMatcher\<close> belong to the
  compiler package and are absent from the sources at hand; the spec consumes them as a
  black box ("parse a compound-selector string", "does matcher M match selector S") and
  its examples use a tag name and \<^verbatim>\<open>[name]\<close> or \<^verbatim>\<open>[name=value]\<close> predicates. The stand-in
  below covers that fragment and the negation \<^verbatim>\<open>:not(...)\<close> of the selector grammar. The
  general theorems about the attribution functions hold for every parser and matcher; the
  stand-in only serves to run the functions on concrete inputs.
\<close>

record SimpleSelector =
  simple_element :: "string option"
  simple_attrs :: "(string \<times> string) list"

record CssSelector =
  css_element :: "string option"
  css_attrs :: "(string \<times> string) list"
  notSelectors :: "SimpleSelector list"

datatype SelectorToken = TagToken string | AttrToken string string | NotOpen | NotClose

definition isNameChar :: "char \<Rightarrow> bool" where
  "isNameChar c = (c \<notin> set ''[]():,'')"

function tokenize :: "string \<Rightarrow> SelectorToken list" where
  "tokenize [] = []"
| "tokenize (c # cs) =
     (if c = CHR ''['' then
        AttrToken (takeWhile (\<lambda>x. x \<noteq> CHR ''='') (takeWhile (\<lambda>x. x \<noteq> CHR '']'') cs))
                  (drop 1 (dropWhile (\<lambda>x. x \<noteq> CHR ''='') (takeWhile (\<lambda>x. x \<noteq> CHR '']'') cs)))
          # tokenize (drop 1 (dropWhile (\<lambda>x. x \<noteq> CHR '']'') cs))
      else if c = CHR '':'' \<and> take 4 cs = ''not('' then NotOpen # tokenize (drop 4 cs)
      else if c = CHR '')'' then NotClose # tokenize cs
      else if isNameChar c then
        TagToken (c # takeWhile isNameChar cs) # tokenize (dropWhile isNameChar cs)
      else tokenize cs)"
  by pat_completeness auto
termination
  by (relation "measure length")
    (auto simp: length_dropWhile_le le_imp_less_Suc
       intro: le_less_trans [OF diff_le_self] order_trans [OF diff_le_self])

fun build :: "SelectorToken list \<Rightarrow> SimpleSelector option \<Rightarrow> CssSelector \<Rightarrow> CssSelector" where
  "build [] current sel =
     (case current of None \<Rightarrow> sel | Some n \<Rightarrow> sel\<lparr>notSelectors := notSelectors sel @ [n]\<rparr>)"
| "build (NotOpen # toks) current sel =
     build toks (Some \<lparr>simple_element = None, simple_attrs = []\<rparr>) sel"
| "build (NotClose # toks) current sel =
     (case current of
        None \<Rightarrow> build toks None sel
      | Some n \<Rightarrow> build toks None (sel\<lparr>notSelectors := notSelectors sel @ [n]\<rparr>))"
| "build (TagToken tag # toks) current sel =
     (case current of
        None \<Rightarrow> build toks None (sel\<lparr>css_element := Some tag\<rparr>)
      | Some n \<Rightarrow> build toks (Some (n\<lparr>simple_element := Some tag\<rparr>)) sel)"
| "build (AttrToken key val # toks) current sel =
     (case current of
        None \<Rightarrow> build toks None (sel\<lparr>css_attrs := css_attrs sel @ [(key, val)]\<rparr>)
      | Some n \<Rightarrow> build toks (Some (n\<lparr>simple_attrs := simple_attrs n @ [(key, val)]\<rparr>)) sel)"

definition standInParse :: "string \<Rightarrow> CssSelector list" where
  "standInParse selectorText =
     [build (tokenize selectorText) None \<lparr>css_element = None, css_attrs = [], notSelectors = []\<rparr>]"

text \<open>
  A selectable matches a host selector when its tag name, if it has one, is the host's, each
  of its attribute predicates is met by a host attribute of that name (with that value,
  unless the predicate has no value), and none of its negated parts matches the host. A
  selectable with neither a tag name nor an attribute matches nothing.
\<close>

definition attrsMatch :: "(string \<times> string) list \<Rightarrow> (string \<times> string) list \<Rightarrow> bool" where
  "attrsMatch wanted hostAttrs =
     list_all (\<lambda>(key, val). list_ex (\<lambda>(hostKey, hostVal). hostKey = key \<and> (val = [] \<or> hostVal = val)) hostAttrs)
       wanted"

definition simpleMatches :: "string option \<Rightarrow> (string \<times> string) list \<Rightarrow> CssSelector \<Rightarrow> bool" where
  "simpleMatches tag wanted host =
     ((tag \<noteq> None \<or> wanted \<noteq> []) \<and>
      (case tag of None \<Rightarrow> True | Some t \<Rightarrow> css_element host = Some t) \<and>
      attrsMatch wanted (css_attrs host))"

definition selectableMatches :: "CssSelector \<Rightarrow> CssSelector \<Rightarrow> bool" where
  "selectableMatches selectable host =
     (simpleMatches (css_element selectable) (css_attrs selectable) host \<and>
      \<not> list_ex (\<lambda>n. simpleMatches (simple_element n) (simple_attrs n) host) (notSelectors selectable))"

definition standInMatch :: "CssSelector list \<Rightarrow> CssSelector \<Rightarrow> bool" where
  "standInMatch selectables host = list_ex (\<lambda>selectable. selectableMatches selectable host) selectables"

subsection \<open>The matching primitive in the spec's words\<close>

text \<open>
  The spec describes the matching primitive per directive: a directive with a selector is
  matched by a compound-selector text when any selector parsed from the text matches the
  selectables parsed from the directive's selector; a directive without a selector is
  never matched. \<open>directiveMatches\<close> is that description, to be compared with
  \<^verbatim>\<open>getDirectiveMatchesForSelector\<close>.
\<close>

definition directiveMatches ::
  "(string \<Rightarrow> 's list) \<Rightarrow> ('s list \<Rightarrow> 's \<Rightarrow> bool) \<Rightarrow> string \<Rightarrow> DirectiveSymbol \<Rightarrow> bool" where
  "directiveMatches parse matches selectorText dir =
     (case selector dir of
        None \<Rightarrow> False
      | Some dirSelector \<Rightarrow> (\<exists>sel \<in> set (parse selectorText). matches (parse dirSelector) sel))"

subsection \<open>The display part filter in the spec's words\<close>

text \<open>
  The spec describes the filter per element: the element at index \<open>i\<close> is suppressed when
  it is an import alias immediately followed by a dot, or a dot immediately preceded by an
  import alias. \<open>suppressed\<close> is that description, to be compared with
  \<^verbatim>\<open>filterAliasImports\<close>.
\<close>

definition suppressed :: "SymbolDisplayPart list \<Rightarrow> nat \<Rightarrow> bool" where
  "suppressed parts i =
     (i < length parts \<and>
      ((isImportAlias (parts ! i) \<and> Suc i < length parts \<and> isDotPunctuation (parts ! Suc i)) \<or>
       (isDotPunctuation (parts ! i) \<and> 0 < i \<and> isImportAlias (parts ! (i - 1)))))"

section \<open>Example inputs\<close>

text \<open>A span from offset \<open>a\<close> to offset \<open>b\<close> of a template file with the given text.\<close>

definition spanOf :: "string \<Rightarrow> int \<Rightarrow> int \<Rightarrow> ParseSourceSpan" where
  "spanOf src a b =
     \<lparr>start_loc = \<lparr>loc_file = \<lparr>content = src, url = ''app.html''\<rparr>, offset = a\<rparr>,
      end_loc = \<lparr>loc_file = \<lparr>content = src, url = ''app.html''\<rparr>, offset = b\<rparr>\<rparr>"

text \<open>
  The host element \<^verbatim>\<open><div myAttr [foo]=x>\<close> of the spec's example, and the candidate
  directives with the selectors \<^verbatim>\<open>div[myAttr]\<close>, \<^verbatim>\<open>[myAttr]\<close>, \<^verbatim>\<open>[foo]\<close> and one
  without a selector.
\<close>

definition divHost :: HostNode where
  "divHost =
     Element ''div'' [\<lparr>name = ''myAttr'', valueSpan = None\<rparr>]
       [\<lparr>name = ''foo'', valueSpan = Some (spanOf ''<div myAttr [foo]=x>'' 18 19)\<rparr>]"

definition divMyAttrDir :: DirectiveSymbol where
  "divMyAttrDir = \<lparr>tsSymbol = 0, selector = Some ''div[myAttr]''\<rparr>"

definition myAttrDir :: DirectiveSymbol where
  "myAttrDir = \<lparr>tsSymbol = 1, selector = Some ''[myAttr]''\<rparr>"

definition fooDir :: DirectiveSymbol where
  "fooDir = \<lparr>tsSymbol = 2, selector = Some ''[foo]''\<rparr>"

definition noSelectorDir :: DirectiveSymbol where
  "noSelectorDir = \<lparr>tsSymbol = 3, selector = None\<rparr>"

definition exampleDirectives :: "DirectiveSymbol list" where
  "exampleDirectives = [divMyAttrDir, myAttrDir, fooDir, noSelectorDir]"

text \<open>
  The host element \<^verbatim>\<open><a routerLink>\<close> and a directive whose selector
  \<^verbatim>\<open>:not(a)[routerLink]\<close> excludes that tag.
\<close>

definition anchorHost :: HostNode where
  "anchorHost = Element ''a'' [\<lparr>name = ''routerLink'', valueSpan = None\<rparr>] []"

definition routerLinkDir :: DirectiveSymbol where
  "routerLinkDir = \<lparr>tsSymbol = 0, selector = Some '':not(a)[routerLink]''\<rparr>"

text \<open>Display parts for the examples.\<close>

definition aliasPart :: "string \<Rightarrow> SymbolDisplayPart" where
  "aliasPart t = \<lparr>kind = ALIAS_NAME, text = t\<rparr>"

definition dotPart :: SymbolDisplayPart where
  "dotPart = \<lparr>kind = SYMBOL_PUNC, text = ''.''\<rparr>"

definition classPart :: "string \<Rightarrow> SymbolDisplayPart" where
  "classPart t = \<lparr>kind = ''className'', text = t\<rparr>"

text \<open>
  A compiler for the examples. The template file \<^verbatim>\<open>app.html\<close> is used by three classes
  and, to exercise the skipping, is also reported for a function: one class in \<^verbatim>\<open>b.ts\<close>
  and, in \<^verbatim>\<open>a.ts\<close>, a class at offset 5 with a template, a class at offset 50 without
  one and the function at offset 100. The source file \<^verbatim>\<open>app.ts\<close> has three top-level
  statements: a function at 0..10 with a class nested in it at 2..8, a class at 10..50
  without a template and a class at 50..90 with one.
\<close>

definition appTemplate :: "Node list" where
  "appTemplate = [TemplateNode (spanOf ''<div myAttr [foo]=x>'' 0 20) None]"

definition libComponent :: TsNode where
  "libComponent = TsNode ClassDeclaration ''b.ts'' 5 40 []"

definition earlyComponent :: TsNode where
  "earlyComponent = TsNode ClassDeclaration ''a.ts'' 5 40 []"

definition lateComponent :: TsNode where
  "lateComponent = TsNode ClassDeclaration ''a.ts'' 50 90 []"

definition helperFunction :: TsNode where
  "helperFunction = TsNode FunctionDeclaration ''a.ts'' 100 150 []"

definition nestedClass :: TsNode where
  "nestedClass = TsNode ClassDeclaration ''app.ts'' 2 8 []"

definition outerFunction :: TsNode where
  "outerFunction = TsNode FunctionDeclaration ''app.ts'' 0 10 [nestedClass]"

definition emptyClass :: TsNode where
  "emptyClass = TsNode ClassDeclaration ''app.ts'' 10 50 []"

definition nextClass :: TsNode where
  "nextClass = TsNode ClassDeclaration ''app.ts'' 50 90 []"

definition exampleCompiler :: NgCompiler where
  "exampleCompiler =
     \<lparr>getTemplate =
        (\<lambda>decl. if decl = libComponent \<or> decl = earlyComponent \<or> decl = nestedClass \<or> decl = nextClass
                then Some appTemplate else None),
      getComponentsWithTemplateFile =
        (\<lambda>f. if f = ''app.html'' then [libComponent, earlyComponent, lateComponent, helperFunction]
              else []),
      getSourceFile =
        (\<lambda>f. if f = ''app.ts''
              then Some \<lparr>fileName = ''app.ts'', statements = [outerFunction, emptyClass, nextClass]\<rparr>
              else None)\<rparr>"

text \<open>
  A second source file, \<^verbatim>\<open>pair.ts\<close>, with two adjacent top-level classes: one at 10..50
  with a template and one at 50..90 without. A statement's \<^verbatim>\<open>pos\<close> is the \<^verbatim>\<open>end\<close> of the
  statement before it, so position 50 lies in the closed range of both.
\<close>

definition templatedClass :: TsNode where
  "templatedClass = TsNode ClassDeclaration ''pair.ts'' 10 50 []"

definition untemplatedClass :: TsNode where
  "untemplatedClass = TsNode ClassDeclaration ''pair.ts'' 50 90 []"

definition pairCompiler :: NgCompiler where
  "pairCompiler =
     \<lparr>getTemplate = (\<lambda>decl. if decl = templatedClass then Some appTemplate else None),
      getComponentsWithTemplateFile = (\<lambda>f. []),
      getSourceFile =
        (\<lambda>f. if f = ''pair.ts''
              then Some \<lparr>fileName = ''pair.ts'', statements = [templatedClass, untemplatedClass]\<rparr>
              else None)\<rparr>"

section \<open>Theorems\<close>

subsection \<open>Span normalisation\<close>

text \<open>
  Claim C7, as amended. \<^verbatim>\<open>toTextSpan\<close> maps an absolute span to its start and
  \<open>end - start\<close>, and a parsed span to the offset of its start location and the difference
  of the two offsets. The length is the plain difference: it is non-negative exactly when
  the span's start does not lie after its end, and it is zero exactly when the two
  coincide, so an empty span stays an empty text span.
\<close>

theorem toTextSpan_normalises:
  "toTextSpan (Absolute a) = \<lparr>ts_start = abs_start a, ts_length = abs_end a - abs_start a\<rparr> \<and>
   toTextSpan (Parsed p) =
     \<lparr>ts_start = offset (start_loc p), ts_length = offset (end_loc p) - offset (start_loc p)\<rparr> \<and>
   (0 \<le> ts_length (toTextSpan (Absolute a)) \<longleftrightarrow> abs_start a \<le> abs_end a) \<and>
   (0 \<le> ts_length (toTextSpan (Parsed p)) \<longleftrightarrow> offset (start_loc p) \<le> offset (end_loc p)) \<and>
   (ts_length (toTextSpan (Absolute a)) = 0 \<longleftrightarrow> abs_end a = abs_start a) \<and>
   (ts_length (toTextSpan (Parsed p)) = 0 \<longleftrightarrow> offset (end_loc p) = offset (start_loc p))"
  by (simp add: Let_def)

text \<open>
  Witness for C7 as amended: the absolute span 3..7 and an empty parsed span at offset 4.
\<close>

theorem toTextSpan_normalises_witness:
  "toTextSpan (Absolute \<lparr>abs_start = 3, abs_end = 7\<rparr>) = \<lparr>ts_start = 3, ts_length = 4\<rparr> \<and>
   toTextSpan (Parsed \<lparr>start_loc = \<lparr>loc_file = \<lparr>content = ''<a b>'', url = ''t.html''\<rparr>, offset = 4\<rparr>,
                        end_loc = \<lparr>loc_file = \<lparr>content = ''<a b>'', url = ''t.html''\<rparr>, offset = 4\<rparr>\<rparr>)
     = \<lparr>ts_start = 4, ts_length = 0\<rparr> \<and>
   0 \<le> ts_length (toTextSpan (Absolute \<lparr>abs_start = 3, abs_end = 7\<rparr>))"
  using toTextSpan_normalises
    [of "\<lparr>abs_start = 3, abs_end = 7\<rparr>"
        "\<lparr>start_loc = \<lparr>loc_file = \<lparr>content = ''<a b>'', url = ''t.html''\<rparr>, offset = 4\<rparr>,
          end_loc = \<lparr>loc_file = \<lparr>content = ''<a b>'', url = ''t.html''\<rparr>, offset = 4\<rparr>\<rparr>"]
  by simp

text \<open>
  Counterexample to C7 as stated: nothing in \<^verbatim>\<open>toTextSpan\<close> keeps the length from being
  negative. The absolute span with start 5 and end 3 gets the length \<open>-2\<close>.
\<close>

theorem toTextSpan_negative_length:
  "toTextSpan (Absolute \<lparr>abs_start = 5, abs_end = 3\<rparr>) = \<lparr>ts_start = 5, ts_length = - 2\<rparr> \<and>
   \<not> 0 \<le> ts_length (toTextSpan (Absolute \<lparr>abs_start = 5, abs_end = 3\<rparr>))"
  by (simp add: Let_def)

subsection \<open>The span of a node\<close>

text \<open>
  Claim C5. \<^verbatim>\<open>getTextSpanOfNode\<close> follows three cases in this order. A template node
  that owns a \<^verbatim>\<open>keySpan\<close> gets the text span of the \<^verbatim>\<open>keySpan\<close>. Any other node that is a
  \<^verbatim>\<open>PropertyWrite\<close>, \<^verbatim>\<open>MethodCall\<close>, \<^verbatim>\<open>BindingPipe\<close> or \<^verbatim>\<open>PropertyRead\<close> gets the text span
  of its \<^verbatim>\<open>nameSpan\<close>, not of its \<^verbatim>\<open>sourceSpan\<close>. Every remaining node gets the text span of
  its \<^verbatim>\<open>sourceSpan\<close>.
\<close>

theorem getTextSpanOfNode_priority:
  "(isTemplateNodeWithKeyAndValue node \<longrightarrow>
      (\<exists>key. keySpan node = Some key \<and> getTextSpanOfNode node = toTextSpan (Parsed key))) \<and>
   (\<not> isTemplateNodeWithKeyAndValue node \<and>
      (\<exists>src nm. node = PropertyWrite src nm \<or> node = MethodCall src nm \<or>
                 node = BindingPipe src nm \<or> node = PropertyRead src nm) \<longrightarrow>
      (\<exists>nm. nameSpan node = Some nm \<and> getTextSpanOfNode node = toTextSpan (Absolute nm))) \<and>
   (\<not> isTemplateNodeWithKeyAndValue node \<and>
      \<not> (\<exists>src nm. node = PropertyWrite src nm \<or> node = MethodCall src nm \<or>
                   node = BindingPipe src nm \<or> node = PropertyRead src nm) \<longrightarrow>
      getTextSpanOfNode node = toTextSpan (sourceSpan node))"
proof (cases node)
  case (TemplateNode src key)
  then show ?thesis
    by (cases key) (simp_all add: isTemplateNodeWithKeyAndValue_def isTemplateNode_def)
qed (simp_all add: isTemplateNodeWithKeyAndValue_def isTemplateNode_def)

text \<open>
  Witness for C5, on \<^verbatim>\<open><div myAttr [foo]=x>\<close>: the bound attribute \<^verbatim>\<open>[foo]=x\<close> at
  12..19 with its key \<^verbatim>\<open>foo\<close> at 13..16 gets the key's span; a property read whose name
  lies at 7..11 of the expression 3..11 gets the name's span; a node of another expression
  class at 3..6 gets its source span.
\<close>

theorem getTextSpanOfNode_priority_witness:
  "isTemplateNodeWithKeyAndValue
     (TemplateNode (spanOf ''<div myAttr [foo]=x>'' 12 19) (Some (spanOf ''<div myAttr [foo]=x>'' 13 16))) \<and>
   getTextSpanOfNode
     (TemplateNode (spanOf ''<div myAttr [foo]=x>'' 12 19) (Some (spanOf ''<div myAttr [foo]=x>'' 13 16)))
     = \<lparr>ts_start = 13, ts_length = 3\<rparr> \<and>
   \<not> isTemplateNodeWithKeyAndValue
     (PropertyRead \<lparr>abs_start = 3, abs_end = 11\<rparr> \<lparr>abs_start = 7, abs_end = 11\<rparr>) \<and>
   getTextSpanOfNode (PropertyRead \<lparr>abs_start = 3, abs_end = 11\<rparr> \<lparr>abs_start = 7, abs_end = 11\<rparr>)
     = \<lparr>ts_start = 7, ts_length = 4\<rparr> \<and>
   \<not> isTemplateNodeWithKeyAndValue (OtherAST \<lparr>abs_start = 3, abs_end = 6\<rparr>) \<and>
   getTextSpanOfNode (OtherAST \<lparr>abs_start = 3, abs_end = 6\<rparr>) = \<lparr>ts_start = 3, ts_length = 3\<rparr>"
  using
    getTextSpanOfNode_priority
      [of "TemplateNode (spanOf ''<div myAttr [foo]=x>'' 12 19)
             (Some (spanOf ''<div myAttr [foo]=x>'' 13 16))"]
    getTextSpanOfNode_priority
      [of "PropertyRead \<lparr>abs_start = 3, abs_end = 11\<rparr> \<lparr>abs_start = 7, abs_end = 11\<rparr>"]
    getTextSpanOfNode_priority [of "OtherAST \<lparr>abs_start = 3, abs_end = 6\<rparr>"]
  by (simp add: isTemplateNodeWithKeyAndValue_def isTemplateNode_def spanOf_def Let_def)

subsection \<open>Sets as duplicate-free lists\<close>

lemma Set_has_iff: "Set_has s x \<longleftrightarrow> x \<in> set s"
  by (simp add: Set_has_def)

lemma set_Set_add: "set (Set_add s x) = insert x (set s)"
  by (auto simp: Set_add_def Set_has_iff)

lemma distinct_Set_add: "distinct s \<Longrightarrow> distinct (Set_add s x)"
  by (simp add: Set_add_def Set_has_iff)

lemma set_foldl_Set_add: "set (foldl Set_add acc xs) = set acc \<union> set xs"
  by (induction xs arbitrary: acc) (simp_all add: set_Set_add)

lemma distinct_foldl_Set_add: "distinct acc \<Longrightarrow> distinct (foldl Set_add acc xs)"
  by (induction xs arbitrary: acc) (simp_all add: distinct_Set_add)

lemma set_new_Set: "set (new_Set xs) = set xs"
  by (simp add: new_Set_def set_foldl_Set_add)

lemma distinct_new_Set: "distinct (new_Set xs)"
  by (simp add: new_Set_def distinct_foldl_Set_add)

lemma set_difference_loop:
  "set (foldl (\<lambda>result dir. if \<not> Set_has right dir then Set_add result dir else result) acc left)
     = set acc \<union> (set left - set right)"
  by (induction left arbitrary: acc) (auto simp: set_Set_add Set_has_iff)

lemma distinct_difference_loop:
  "distinct acc \<Longrightarrow>
   distinct (foldl (\<lambda>result dir. if \<not> Set_has right dir then Set_add result dir else result) acc left)"
  by (induction left arbitrary: acc) (simp_all add: distinct_Set_add)

lemma set_difference: "set (difference left right) = set left - set right"
  by (simp add: difference_def set_difference_loop)

lemma distinct_difference: "distinct (difference left right)"
  by (simp add: difference_def distinct_difference_loop)

subsection \<open>Matching and attribution\<close>

text \<open>
  \<^verbatim>\<open>getDirectiveMatchesForSelector\<close> returns the candidates that the matching primitive
  accepts; an empty parse of the text gives the empty set.
\<close>

lemma set_getDirectiveMatchesForSelector:
  "set (getDirectiveMatchesForSelector parse matches directives selectorText) =
     {dir \<in> set directives. directiveMatches parse matches selectorText dir}"
  by (auto simp: getDirectiveMatchesForSelector_def directiveMatches_def set_new_Set Let_def
        list_ex_iff split: option.splits)

lemma getDirectiveMatchesForElementTag_unfold:
  "getDirectiveMatchesForElementTag parse matches host directives =
     difference
       (getDirectiveMatchesForSelector parse matches directives
          (getNodeName host @ concat (map toAttributeString (getAttributes host))))
       (getDirectiveMatchesForSelector parse matches directives
          (concat (map toAttributeString (getAttributes host))))"
  by (simp add: getDirectiveMatchesForElementTag_def Let_def)

lemma getDirectiveMatchesForAttribute_unfold:
  "getDirectiveMatchesForAttribute parse matches attrName host directives =
     difference
       (getDirectiveMatchesForSelector parse matches directives
          (getNodeName host @ concat (map toAttributeString (getAttributes host))))
       (getDirectiveMatchesForSelector parse matches directives
          (concat (map toAttributeString (filter (\<lambda>a. name a \<noteq> attrName) (getAttributes host)))))"
  by (simp add: getDirectiveMatchesForAttribute_def Let_def)

text \<open>
  Claim C1. The directives attributed to the tag are the set difference of those matching
  the tag name followed by the serialized attributes and those matching the serialized
  attributes alone. So the result holds each directive once, and never a directive that
  the attributes alone match.
\<close>

theorem getDirectiveMatchesForElementTag_difference:
  "set (getDirectiveMatchesForElementTag parse matches host directives) =
     set (getDirectiveMatchesForSelector parse matches directives
            (getNodeName host @ concat (map toAttributeString (getAttributes host))))
     - set (getDirectiveMatchesForSelector parse matches directives
              (concat (map toAttributeString (getAttributes host)))) \<and>
   set (getDirectiveMatchesForElementTag parse matches host directives) =
     {dir \<in> set directives.
        directiveMatches parse matches
          (getNodeName host @ concat (map toAttributeString (getAttributes host))) dir \<and>
        \<not> directiveMatches parse matches (concat (map toAttributeString (getAttributes host))) dir} \<and>
   distinct (getDirectiveMatchesForElementTag parse matches host directives) \<and>
   \<not> (\<exists>dir \<in> set (getDirectiveMatchesForElementTag parse matches host directives).
        directiveMatches parse matches (concat (map toAttributeString (getAttributes host))) dir)"
  by (auto simp: getDirectiveMatchesForElementTag_unfold set_difference distinct_difference
        set_getDirectiveMatchesForSelector)

text \<open>
  Witness for C1, the spec's example with the stand-in matcher: on \<^verbatim>\<open><div myAttr [foo]=x>\<close>
  the tag is the cause of the directive \<^verbatim>\<open>div[myAttr]\<close> only.
\<close>

theorem getDirectiveMatchesForElementTag_difference_witness:
  "getNodeName divHost @ concat (map toAttributeString (getAttributes divHost)) = ''div[myAttr=][foo=x]'' \<and>
   set (getDirectiveMatchesForElementTag standInParse standInMatch divHost exampleDirectives) = {divMyAttrDir} \<and>
   set (getDirectiveMatchesForSelector standInParse standInMatch exampleDirectives
          (getNodeName divHost @ concat (map toAttributeString (getAttributes divHost))))
     - set (getDirectiveMatchesForSelector standInParse standInMatch exampleDirectives
              (concat (map toAttributeString (getAttributes divHost)))) = {divMyAttrDir} \<and>
   \<not> directiveMatches standInParse standInMatch
         (concat (map toAttributeString (getAttributes divHost))) divMyAttrDir"
proof -
  note inst = getDirectiveMatchesForElementTag_difference
            [of standInParse standInMatch divHost exampleDirectives]
  have text_eq:
    "getNodeName divHost @ concat (map toAttributeString (getAttributes divHost)) = ''div[myAttr=][foo=x]''"
    by code_simp
  have result: "getDirectiveMatchesForElementTag standInParse standInMatch divHost exampleDirectives = [divMyAttrDir]"
    by code_simp
  have r: "set (getDirectiveMatchesForElementTag standInParse standInMatch divHost exampleDirectives) = {divMyAttrDir}"
    unfolding result by simp
  from inst have d: "set (getDirectiveMatchesForSelector standInParse standInMatch exampleDirectives
          (getNodeName divHost @ concat (map toAttributeString (getAttributes divHost))))
     - set (getDirectiveMatchesForSelector standInParse standInMatch exampleDirectives
              (concat (map toAttributeString (getAttributes divHost)))) = {divMyAttrDir}"
    unfolding r by (simp only:)
  from inst have n: "\<not> (\<exists>dir \<in> {divMyAttrDir}. directiveMatches standInParse standInMatch
         (concat (map toAttributeString (getAttributes divHost))) dir)"
    unfolding r by (elim conjE)
  from n have n': "\<not> directiveMatches standInParse standInMatch
         (concat (map toAttributeString (getAttributes divHost))) divMyAttrDir"
    by blast
  from text_eq r d n' show ?thesis by (intro conjI)
qed

text \<open>
  Claim C2, as amended. The directives attributed to the tag and the directives that the
  attributes alone match are disjoint. Their union is the union of all matches of the full
  compound selector with the matches of the attributes alone; it is the set of all matches
  exactly when every candidate that the attributes alone match is also matched with the
  tag name in front.
\<close>

theorem tag_attribution_decomposition:
  "set (getDirectiveMatchesForElementTag parse matches host directives)
     \<inter> set (getDirectiveMatchesForSelector parse matches directives
              (concat (map toAttributeString (getAttributes host)))) = {} \<and>
   set (getDirectiveMatchesForElementTag parse matches host directives)
     \<union> set (getDirectiveMatchesForSelector parse matches directives
              (concat (map toAttributeString (getAttributes host))))
     = set (getDirectiveMatchesForSelector parse matches directives
              (getNodeName host @ concat (map toAttributeString (getAttributes host))))
       \<union> set (getDirectiveMatchesForSelector parse matches directives
                (concat (map toAttributeString (getAttributes host)))) \<and>
   (set (getDirectiveMatchesForElementTag parse matches host directives)
      \<union> set (getDirectiveMatchesForSelector parse matches directives
               (concat (map toAttributeString (getAttributes host))))
      = set (getDirectiveMatchesForSelector parse matches directives
               (getNodeName host @ concat (map toAttributeString (getAttributes host))))
    \<longleftrightarrow>
    set (getDirectiveMatchesForSelector parse matches directives
           (concat (map toAttributeString (getAttributes host))))
      \<subseteq> set (getDirectiveMatchesForSelector parse matches directives
             (getNodeName host @ concat (map toAttributeString (getAttributes host)))))"
  unfolding getDirectiveMatchesForElementTag_unfold set_difference by blast

text \<open>
  Witness for C2 as amended, on the spec's example: the attributes alone match \<^verbatim>\<open>[myAttr]\<close> and
  \<^verbatim>\<open>[foo]\<close>, both are matched with the tag too, and the union is the set of all matches.
\<close>

theorem tag_attribution_decomposition_witness:
  "set (getDirectiveMatchesForSelector standInParse standInMatch exampleDirectives
          (concat (map toAttributeString (getAttributes divHost)))) = {myAttrDir, fooDir} \<and>
   set (getDirectiveMatchesForSelector standInParse standInMatch exampleDirectives
          (concat (map toAttributeString (getAttributes divHost))))
     \<subseteq> set (getDirectiveMatchesForSelector standInParse standInMatch exampleDirectives
            (getNodeName divHost @ concat (map toAttributeString (getAttributes divHost)))) \<and>
   set (getDirectiveMatchesForElementTag standInParse standInMatch divHost exampleDirectives)
     \<union> set (getDirectiveMatchesForSelector standInParse standInMatch exampleDirectives
              (concat (map toAttributeString (getAttributes divHost))))
     = set (getDirectiveMatchesForSelector standInParse standInMatch exampleDirectives
              (getNodeName divHost @ concat (map toAttributeString (getAttributes divHost))))"
proof -
  note inst = tag_attribution_decomposition [of standInParse standInMatch divHost exampleDirectives]
  have without: "getDirectiveMatchesForSelector standInParse standInMatch exampleDirectives
          (concat (map toAttributeString (getAttributes divHost))) = [myAttrDir, fooDir]"
    by code_simp
  have all: "getDirectiveMatchesForSelector standInParse standInMatch exampleDirectives
          (getNodeName divHost @ concat (map toAttributeString (getAttributes divHost)))
        = [divMyAttrDir, myAttrDir, fooDir]"
    by code_simp
  have elems: "set (getDirectiveMatchesForSelector standInParse standInMatch exampleDirectives
          (concat (map toAttributeString (getAttributes divHost)))) = {myAttrDir, fooDir}"
    unfolding without by simp
  have sub: "set (getDirectiveMatchesForSelector standInParse standInMatch exampleDirectives
          (concat (map toAttributeString (getAttributes divHost))))
     \<subseteq> set (getDirectiveMatchesForSelector standInParse standInMatch exampleDirectives
            (getNodeName divHost @ concat (map toAttributeString (getAttributes divHost))))"
    unfolding without all by simp
  from inst have exhaustive_iff:
    "set (getDirectiveMatchesForElementTag standInParse standInMatch divHost exampleDirectives)
       \<union> set (getDirectiveMatchesForSelector standInParse standInMatch exampleDirectives
                (concat (map toAttributeString (getAttributes divHost))))
       = set (getDirectiveMatchesForSelector standInParse standInMatch exampleDirectives
                (getNodeName divHost @ concat (map toAttributeString (getAttributes divHost))))
     \<longleftrightarrow>
     set (getDirectiveMatchesForSelector standInParse standInMatch exampleDirectives
            (concat (map toAttributeString (getAttributes divHost))))
       \<subseteq> set (getDirectiveMatchesForSelector standInParse standInMatch exampleDirectives
              (getNodeName divHost @ concat (map toAttributeString (getAttributes divHost))))"
    by (elim conjE)
  from exhaustive_iff sub have union:
    "set (getDirectiveMatchesForElementTag standInParse standInMatch divHost exampleDirectives)
       \<union> set (getDirectiveMatchesForSelector standInParse standInMatch exampleDirectives
                (concat (map toAttributeString (getAttributes divHost))))
       = set (getDirectiveMatchesForSelector standInParse standInMatch exampleDirectives
                (getNodeName divHost @ concat (map toAttributeString (getAttributes divHost))))"
    by (rule iffD2)
  from elems sub union show ?thesis by (intro conjI)
qed

text \<open>
  Counterexample to C2 as stated, with a selector that excludes the tag. On \<^verbatim>\<open><a routerLink>\<close>
  the directive \<^verbatim>\<open>:not(a)[routerLink]\<close> is matched by the attributes alone and not with
  the tag name in front: the union holds it and the set of all matches is empty.
\<close>

theorem tag_attribution_not_exhaustive:
  "set (getDirectiveMatchesForElementTag standInParse standInMatch anchorHost [routerLinkDir])
     \<union> set (getDirectiveMatchesForSelector standInParse standInMatch [routerLinkDir]
              (concat (map toAttributeString (getAttributes anchorHost))))
     \<noteq> set (getDirectiveMatchesForSelector standInParse standInMatch [routerLinkDir]
              (getNodeName anchorHost @ concat (map toAttributeString (getAttributes anchorHost))))"
proof -
  have tag: "getDirectiveMatchesForElementTag standInParse standInMatch anchorHost [routerLinkDir] = []"
    by code_simp
  have without: "getDirectiveMatchesForSelector standInParse standInMatch [routerLinkDir]
              (concat (map toAttributeString (getAttributes anchorHost))) = [routerLinkDir]"
    by code_simp
  have all: "getDirectiveMatchesForSelector standInParse standInMatch [routerLinkDir]
              (getNodeName anchorHost @ concat (map toAttributeString (getAttributes anchorHost))) = []"
    by code_simp
  show ?thesis
    unfolding tag without all by simp
qed

text \<open>
  Claim C3. The directives attributed to an attribute name are the set difference of those
  matching the tag name followed by all serialized attributes and those matching the
  serialized attributes whose name is not the given one, this second text without the tag
  name. An attribute is serialized as \<^verbatim>\<open>[name=value]\<close>, the value being the text of its
  value span or empty without one; the attributes are the static ones, then the bound ones,
  then, on a template node only, the template attributes.
\<close>

theorem getDirectiveMatchesForAttribute_difference:
  "set (getDirectiveMatchesForAttribute parse matches attrName host directives) =
     set (getDirectiveMatchesForSelector parse matches directives
            (getNodeName host @ concat (map toAttributeString (getAttributes host))))
     - set (getDirectiveMatchesForSelector parse matches directives
              (concat (map toAttributeString (filter (\<lambda>a. name a \<noteq> attrName) (getAttributes host))))) \<and>
   toAttributeString \<lparr>name = key, valueSpan = None\<rparr> = ''['' @ key @ ''=]'' \<and>
   toAttributeString \<lparr>name = key, valueSpan = Some span\<rparr>
     = ''['' @ key @ ''='' @ ParseSourceSpan_toString span @ '']'' \<and>
   getNodeName (Element tag statics bounds) = tag \<and>
   getAttributes (Element tag statics bounds) = statics @ bounds \<and>
   getNodeName (Template tag statics bounds templates) = tag \<and>
   getAttributes (Template tag statics bounds templates) = statics @ bounds @ templates"
  by (simp add: getDirectiveMatchesForAttribute_unfold set_difference toAttributeString_def)

text \<open>
  Witness for C3, on the spec's example: for \<^verbatim>\<open>myAttr\<close> on \<^verbatim>\<open><div myAttr [foo]=x>\<close> the two
  texts are \<^verbatim>\<open>div[myAttr=][foo=x]\<close> and \<^verbatim>\<open>[foo=x]\<close>, and the attribute is the cause of
  the directives \<^verbatim>\<open>div[myAttr]\<close> and \<^verbatim>\<open>[myAttr]\<close>.
\<close>

theorem getDirectiveMatchesForAttribute_difference_witness:
  "getNodeName divHost @ concat (map toAttributeString (getAttributes divHost)) = ''div[myAttr=][foo=x]'' \<and>
   concat (map toAttributeString (filter (\<lambda>a. name a \<noteq> ''myAttr'') (getAttributes divHost))) = ''[foo=x]'' \<and>
   set (getDirectiveMatchesForAttribute standInParse standInMatch ''myAttr'' divHost exampleDirectives)
     = {divMyAttrDir, myAttrDir} \<and>
   set (getDirectiveMatchesForSelector standInParse standInMatch exampleDirectives
          (getNodeName divHost @ concat (map toAttributeString (getAttributes divHost))))
     - set (getDirectiveMatchesForSelector standInParse standInMatch exampleDirectives
             (concat (map toAttributeString (filter (\<lambda>a. name a \<noteq> ''myAttr'') (getAttributes divHost)))))
     = {divMyAttrDir, myAttrDir}"
proof -
  note inst = getDirectiveMatchesForAttribute_difference
    [of standInParse standInMatch "''myAttr''" divHost exampleDirectives]
  have with_text:
    "getNodeName divHost @ concat (map toAttributeString (getAttributes divHost)) = ''div[myAttr=][foo=x]''"
    by code_simp
  have without_text:
    "concat (map toAttributeString (filter (\<lambda>a. name a \<noteq> ''myAttr'') (getAttributes divHost))) = ''[foo=x]''"
    by code_simp
  have result:
    "getDirectiveMatchesForAttribute standInParse standInMatch ''myAttr'' divHost exampleDirectives
       = [divMyAttrDir, myAttrDir]"
    by code_simp
  have r: "set (getDirectiveMatchesForAttribute standInParse standInMatch ''myAttr'' divHost exampleDirectives)
     = {divMyAttrDir, myAttrDir}"
    unfolding result by simp
  from inst have d: "set (getDirectiveMatchesForSelector standInParse standInMatch exampleDirectives
          (getNodeName divHost @ concat (map toAttributeString (getAttributes divHost))))
     - set (getDirectiveMatchesForSelector standInParse standInMatch exampleDirectives
             (concat (map toAttributeString (filter (\<lambda>a. name a \<noteq> ''myAttr'') (getAttributes divHost)))))
     = {divMyAttrDir, myAttrDir}"
    unfolding r by (simp only:)
  from with_text without_text r d show ?thesis by (intro conjI)
qed

lemma selector_of_match:
  "dir \<in> set (getDirectiveMatchesForSelector parse matches directives selectorText) \<Longrightarrow>
   selector dir \<noteq> None"
  by (auto simp: set_getDirectiveMatchesForSelector directiveMatches_def split: option.splits)

text \<open>
  Claim C8. A directive whose selector is null is in no attribution result: every directive
  attributed to a tag or to an attribute has a selector.
\<close>

theorem null_selector_never_attributed:
  "(dir \<in> set (getDirectiveMatchesForElementTag parse matches host directives) \<longrightarrow>
      selector dir \<noteq> None) \<and>
   (dir \<in> set (getDirectiveMatchesForAttribute parse matches attrName host directives) \<longrightarrow>
      selector dir \<noteq> None) \<and>
   (selector dir = None \<longrightarrow>
      dir \<notin> set (getDirectiveMatchesForElementTag parse matches host directives) \<and>
      dir \<notin> set (getDirectiveMatchesForAttribute parse matches attrName host directives))"
  unfolding getDirectiveMatchesForElementTag_unfold getDirectiveMatchesForAttribute_unfold
    set_difference
  using selector_of_match by blast

text \<open>
  Witness for C8, on the spec's example extended by a candidate without a selector: the directive
  \<^verbatim>\<open>div[myAttr]\<close> is attributed to the tag and to \<^verbatim>\<open>myAttr\<close> and has a selector; the
  candidate without one is in neither result.
\<close>

theorem null_selector_never_attributed_witness:
  "divMyAttrDir \<in> set (getDirectiveMatchesForElementTag standInParse standInMatch divHost exampleDirectives) \<and>
   divMyAttrDir \<in> set (getDirectiveMatchesForAttribute standInParse standInMatch ''myAttr'' divHost exampleDirectives) \<and>
   selector divMyAttrDir \<noteq> None \<and>
   noSelectorDir \<in> set exampleDirectives \<and>
   selector noSelectorDir = None \<and>
   noSelectorDir \<notin> set (getDirectiveMatchesForElementTag standInParse standInMatch divHost exampleDirectives) \<and>
   noSelectorDir \<notin> set (getDirectiveMatchesForAttribute standInParse standInMatch ''myAttr'' divHost exampleDirectives)"
proof -
  note present = null_selector_never_attributed
    [of divMyAttrDir standInParse standInMatch divHost exampleDirectives "''myAttr''"]
  note absent = null_selector_never_attributed
    [of noSelectorDir standInParse standInMatch divHost exampleDirectives "''myAttr''"]
  have tag: "getDirectiveMatchesForElementTag standInParse standInMatch divHost exampleDirectives = [divMyAttrDir]"
    by code_simp
  have attr: "getDirectiveMatchesForAttribute standInParse standInMatch ''myAttr'' divHost exampleDirectives
       = [divMyAttrDir, myAttrDir]"
    by code_simp
  have in_tag: "divMyAttrDir \<in> set (getDirectiveMatchesForElementTag standInParse standInMatch divHost exampleDirectives)"
    unfolding tag by simp
  have in_attr: "divMyAttrDir \<in> set (getDirectiveMatchesForAttribute standInParse standInMatch ''myAttr'' divHost exampleDirectives)"
    unfolding attr by simp
  have has_selector: "selector divMyAttrDir \<noteq> None"
    using present [THEN conjunct1] in_tag by (rule mp)
  have candidate: "noSelectorDir \<in> set exampleDirectives"
    by (simp add: exampleDirectives_def)
  have null: "selector noSelectorDir = None"
    by (simp add: noSelectorDir_def)
  have out:
    "noSelectorDir \<notin> set (getDirectiveMatchesForElementTag standInParse standInMatch divHost exampleDirectives) \<and>
     noSelectorDir \<notin> set (getDirectiveMatchesForAttribute standInParse standInMatch ''myAttr'' divHost exampleDirectives)"
    using absent [THEN conjunct2, THEN conjunct2] null by (rule mp)
  from in_tag in_attr has_selector candidate null out [THEN conjunct1] out [THEN conjunct2]
  show ?thesis by (intro conjI)
qed

subsection \<open>The display part filter\<close>

lemma at_index_int: "at_index xs (int i) = (if i < length xs then Some (xs ! i) else None)"
  by (simp add: at_index_def)

lemma at_index_succ: "at_index xs (int i + 1) = (if Suc i < length xs then Some (xs ! Suc i) else None)"
  using at_index_int [of xs "Suc i"] by (simp add: add.commute)

lemma at_index_pred:
  "at_index xs (int i - 1) = (if 0 < i \<and> i - 1 < length xs then Some (xs ! (i - 1)) else None)"
proof (cases i)
  case 0
  then show ?thesis by (simp add: at_index_def)
next
  case (Suc j)
  then show ?thesis using at_index_int [of xs j] by simp
qed

lemma keepPart_iff:
  "i < length parts \<Longrightarrow> keepPart parts (int i) (parts ! i) \<longleftrightarrow> \<not> suppressed parts i"
  by (auto simp: keepPart_def suppressed_def Let_def at_index_succ at_index_pred)

lemma zip_indices_swap:
  "zip (map int [0..<length xs]) xs = map (\<lambda>(x, i). (int i, x)) (zip xs [0..<length xs])"
  by (rule nth_equalityI) simp_all

lemma filterAliasImports_eq_nths:
  "filterAliasImports parts = nths parts {i. \<not> suppressed parts i}"
proof -
  have "filterAliasImports parts =
          map fst (filter (\<lambda>(x, i). keepPart parts (int i) x) (zip parts [0..<length parts]))"
    unfolding filterAliasImports_def zip_indices_swap
    by (simp add: filter_map comp_def case_prod_unfold)
  also have "\<dots> = map fst (filter (\<lambda>p. snd p \<in> {i. \<not> suppressed parts i}) (zip parts [0..<length parts]))"
  proof -
    have "filter (\<lambda>(x, i). keepPart parts (int i) x) (zip parts [0..<length parts])
        = filter (\<lambda>p. snd p \<in> {i. \<not> suppressed parts i}) (zip parts [0..<length parts])"
    proof (rule filter_cong [OF refl])
      fix p assume "p \<in> set (zip parts [0..<length parts])"
      then obtain n where "n < length parts" "p = (parts ! n, n)"
        by (auto simp: in_set_zip)
      then show "(case p of (x, i) \<Rightarrow> keepPart parts (int i) x) = (snd p \<in> {i. \<not> suppressed parts i})"
        by (simp add: keepPart_iff)
    qed
    then show ?thesis by simp
  qed
  finally show ?thesis by (simp add: nths_def)
qed

lemma regex_test_iff:
  "tcbAliasImportRegex_test str \<longleftrightarrow> (\<exists>pre d post. str = pre @ CHR ''i'' # d # post \<and> isDigit d)"
proof (induction str)
  case Nil
  then show ?case by simp
next
  case (Cons c cs)
  show ?case
  proof
    assume "tcbAliasImportRegex_test (c # cs)"
    then consider "regexMatchesAt (c # cs)" | "tcbAliasImportRegex_test cs" by auto
    then show "\<exists>pre d post. c # cs = pre @ CHR ''i'' # d # post \<and> isDigit d"
    proof cases
      case 1
      then obtain d post where "cs = d # post" "c = CHR ''i''" "isDigit d"
        by (cases cs) auto
      then have "c # cs = [] @ CHR ''i'' # d # post \<and> isDigit d" by simp
      then show ?thesis by blast
    next
      case 2
      with Cons.IH obtain pre d post where "cs = pre @ CHR ''i'' # d # post" "isDigit d" by blast
      then have "c # cs = (c # pre) @ CHR ''i'' # d # post \<and> isDigit d" by simp
      then show ?thesis by blast
    qed
  next
    assume "\<exists>pre d post. c # cs = pre @ CHR ''i'' # d # post \<and> isDigit d"
    then obtain pre d post where eq: "c # cs = pre @ CHR ''i'' # d # post" and dig: "isDigit d" by blast
    show "tcbAliasImportRegex_test (c # cs)"
    proof (cases pre)
      case Nil
      with eq dig show ?thesis by auto
    next
      case (Cons p pre')
      with eq have "cs = pre' @ CHR ''i'' # d # post" by simp
      with dig Cons.IH have "tcbAliasImportRegex_test cs" by blast
      then show ?thesis by simp
    qed
  qed
qed

text \<open>
  Claim C9. \<^verbatim>\<open>filterAliasImports\<close> keeps exactly the elements that are not suppressed, each
  unchanged and in the original order: the result is the input restricted to the indices
  that are not suppressed, where an element is suppressed when it is an import alias with
  a dot right after it or a dot with an import alias right before it. An import alias is
  what the spec calls an alias-name token: a part of the alias-name kind whose text passes
  the test of the alias pattern; a dot is a part of the punctuation kind with the text
  \<^verbatim>\<open>.\<close>. An alias \<^verbatim>\<open>i0\<close>
  followed by a dot gives the empty sequence, and an alias \<^verbatim>\<open>i0\<close> alone is returned as it
  is.
\<close>

theorem filterAliasImports_local_filter:
  "filterAliasImports parts = nths parts {i. \<not> suppressed parts i} \<and>
   (suppressed parts i \<longleftrightarrow>
      i < length parts \<and>
      ((isImportAlias (parts ! i) \<and> Suc i < length parts \<and> isDotPunctuation (parts ! Suc i)) \<or>
       (isDotPunctuation (parts ! i) \<and> 0 < i \<and> isImportAlias (parts ! (i - 1))))) \<and>
   (isImportAlias part \<longleftrightarrow> kind part = ALIAS_NAME \<and> tcbAliasImportRegex_test (text part)) \<and>
   (isDotPunctuation part \<longleftrightarrow> kind part = SYMBOL_PUNC \<and> text part = ''.'') \<and>
   filterAliasImports [aliasPart ''i0'', dotPart] = [] \<and>
   filterAliasImports [aliasPart ''i0''] = [aliasPart ''i0'']"
proof (intro conjI)
  show "filterAliasImports parts = nths parts {i. \<not> suppressed parts i}"
    by (rule filterAliasImports_eq_nths)
  show "suppressed parts i \<longleftrightarrow>
      i < length parts \<and>
      ((isImportAlias (parts ! i) \<and> Suc i < length parts \<and> isDotPunctuation (parts ! Suc i)) \<or>
       (isDotPunctuation (parts ! i) \<and> 0 < i \<and> isImportAlias (parts ! (i - 1))))"
    by (rule suppressed_def)
  show "isImportAlias part \<longleftrightarrow> kind part = ALIAS_NAME \<and> tcbAliasImportRegex_test (text part)"
    by (rule isImportAlias_def)
  show "isDotPunctuation part \<longleftrightarrow> kind part = SYMBOL_PUNC \<and> text part = ''.''"
    by (rule isDotPunctuation_def)
  show "filterAliasImports [aliasPart ''i0'', dotPart] = []"
    by code_simp
  show "filterAliasImports [aliasPart ''i0''] = [aliasPart ''i0'']"
    by code_simp
qed

text \<open>
  Witness for C9, on the display parts of \<^verbatim>\<open>x i0.NgForOf\<close>: the alias and the dot are dropped,
  the two other parts stay in order.
\<close>

theorem filterAliasImports_local_filter_witness:
  "filterAliasImports [classPart ''x'', aliasPart ''i0'', dotPart, classPart ''NgForOf'']
     = [classPart ''x'', classPart ''NgForOf''] \<and>
   nths [classPart ''x'', aliasPart ''i0'', dotPart, classPart ''NgForOf'']
     {i. \<not> suppressed [classPart ''x'', aliasPart ''i0'', dotPart, classPart ''NgForOf''] i}
     = [classPart ''x'', classPart ''NgForOf'']"
proof -
  have result:
    "filterAliasImports [classPart ''x'', aliasPart ''i0'', dotPart, classPart ''NgForOf'']
       = [classPart ''x'', classPart ''NgForOf'']"
    by code_simp
  have general:
    "filterAliasImports [classPart ''x'', aliasPart ''i0'', dotPart, classPart ''NgForOf'']
       = nths [classPart ''x'', aliasPart ''i0'', dotPart, classPart ''NgForOf'']
           {i. \<not> suppressed [classPart ''x'', aliasPart ''i0'', dotPart, classPart ''NgForOf''] i}"
    using filterAliasImports_local_filter
            [of "[classPart ''x'', aliasPart ''i0'', dotPart, classPart ''NgForOf'']"]
    by (rule conjunct1)
  from result general [symmetric, unfolded result] show ?thesis by (intro conjI)
qed

text \<open>
  Claim C10, as amended. The test of the pattern succeeds exactly on the texts that hold
  the letter \<^verbatim>\<open>i\<close> with a digit right after it, at any position; a display part is an
  import alias exactly when its kind is the alias-name kind and its text is such a text. So
  an alias-name part whose text only contains such a substring, as \<^verbatim>\<open>mi0n\<close> does, is
  removed together with the dot that follows it.
\<close>

theorem import_alias_regex_unanchored:
  "(tcbAliasImportRegex_test str \<longleftrightarrow>
      (\<exists>pre d post. str = pre @ CHR ''i'' # d # post \<and> d \<in> set ''0123456789'')) \<and>
   (isImportAlias part \<longleftrightarrow>
      kind part = ALIAS_NAME \<and>
      (\<exists>pre d post. text part = pre @ CHR ''i'' # d # post \<and> d \<in> set ''0123456789'')) \<and>
   (Suc i < length parts \<and> kind (parts ! i) = ALIAS_NAME \<and>
    tcbAliasImportRegex_test (text (parts ! i)) \<and> isDotPunctuation (parts ! Suc i) \<longrightarrow>
      suppressed parts i \<and> suppressed parts (Suc i) \<and>
      filterAliasImports parts = nths parts ({j. \<not> suppressed parts j} - {i, Suc i})) \<and>
   tcbAliasImportRegex_test ''mi0n'' \<and>
   filterAliasImports [aliasPart ''mi0n'', dotPart] = []"
proof (intro conjI)
  show regex: "tcbAliasImportRegex_test str \<longleftrightarrow>
      (\<exists>pre d post. str = pre @ CHR ''i'' # d # post \<and> d \<in> set ''0123456789'')" for str
    using regex_test_iff [of str] by (simp only: isDigit_def)
  show "isImportAlias part \<longleftrightarrow>
      kind part = ALIAS_NAME \<and>
      (\<exists>pre d post. text part = pre @ CHR ''i'' # d # post \<and> d \<in> set ''0123456789'')"
    unfolding isImportAlias_def regex [of "text part"] by (rule refl)
  show "Suc i < length parts \<and> kind (parts ! i) = ALIAS_NAME \<and>
    tcbAliasImportRegex_test (text (parts ! i)) \<and> isDotPunctuation (parts ! Suc i) \<longrightarrow>
      suppressed parts i \<and> suppressed parts (Suc i) \<and>
      filterAliasImports parts = nths parts ({j. \<not> suppressed parts j} - {i, Suc i})"
  proof
    assume h: "Suc i < length parts \<and> kind (parts ! i) = ALIAS_NAME \<and>
      tcbAliasImportRegex_test (text (parts ! i)) \<and> isDotPunctuation (parts ! Suc i)"
    then have s1: "suppressed parts i"
      by (simp add: suppressed_def isImportAlias_def)
    from h have s2: "suppressed parts (Suc i)"
      by (simp add: suppressed_def isImportAlias_def)
    from s1 s2 have "{j. \<not> suppressed parts j} - {i, Suc i} = {j. \<not> suppressed parts j}"
      by auto
    with s1 s2 show "suppressed parts i \<and> suppressed parts (Suc i) \<and>
      filterAliasImports parts = nths parts ({j. \<not> suppressed parts j} - {i, Suc i})"
      by (simp add: filterAliasImports_eq_nths)
  qed
  show "tcbAliasImportRegex_test ''mi0n''"
    by code_simp
  show "filterAliasImports [aliasPart ''mi0n'', dotPart] = []"
    by code_simp
qed

text \<open>
  Witness for C10 as amended, on the display parts of \<^verbatim>\<open>mi0n.NgForOf\<close>: the first part is an
  alias-name part whose text contains \<^verbatim>\<open>i0\<close>, a dot follows, and both are removed.
\<close>

theorem import_alias_regex_unanchored_witness:
  "Suc 0 < length [aliasPart ''mi0n'', dotPart, classPart ''NgForOf''] \<and>
   kind ([aliasPart ''mi0n'', dotPart, classPart ''NgForOf''] ! 0) = ALIAS_NAME \<and>
   tcbAliasImportRegex_test (text ([aliasPart ''mi0n'', dotPart, classPart ''NgForOf''] ! 0)) \<and>
   isDotPunctuation ([aliasPart ''mi0n'', dotPart, classPart ''NgForOf''] ! Suc 0) \<and>
   suppressed [aliasPart ''mi0n'', dotPart, classPart ''NgForOf''] 0 \<and>
   suppressed [aliasPart ''mi0n'', dotPart, classPart ''NgForOf''] (Suc 0) \<and>
   filterAliasImports [aliasPart ''mi0n'', dotPart, classPart ''NgForOf''] = [classPart ''NgForOf'']"
proof -
  have hyp:
    "Suc 0 < length [aliasPart ''mi0n'', dotPart, classPart ''NgForOf''] \<and>
     kind ([aliasPart ''mi0n'', dotPart, classPart ''NgForOf''] ! 0) = ALIAS_NAME \<and>
     tcbAliasImportRegex_test (text ([aliasPart ''mi0n'', dotPart, classPart ''NgForOf''] ! 0)) \<and>
     isDotPunctuation ([aliasPart ''mi0n'', dotPart, classPart ''NgForOf''] ! Suc 0)"
    by code_simp
  have result:
    "filterAliasImports [aliasPart ''mi0n'', dotPart, classPart ''NgForOf''] = [classPart ''NgForOf'']"
    by code_simp
  have concl:
    "suppressed [aliasPart ''mi0n'', dotPart, classPart ''NgForOf''] 0 \<and>
     suppressed [aliasPart ''mi0n'', dotPart, classPart ''NgForOf''] (Suc 0) \<and>
     filterAliasImports [aliasPart ''mi0n'', dotPart, classPart ''NgForOf'']
       = nths [aliasPart ''mi0n'', dotPart, classPart ''NgForOf'']
           ({j. \<not> suppressed [aliasPart ''mi0n'', dotPart, classPart ''NgForOf''] j} - {0, Suc 0})"
    using import_alias_regex_unanchored
            [of _ _ 0 "[aliasPart ''mi0n'', dotPart, classPart ''NgForOf'']",
             THEN conjunct2, THEN conjunct2, THEN conjunct1] hyp
    by (rule mp)
  from hyp concl [THEN conjunct1] concl [THEN conjunct2, THEN conjunct1] result
  show ?thesis by (intro conjI) (elim conjE, assumption)+
qed

text \<open>
  Counterexample to C10 as stated. The claim gives \<^verbatim>\<open>min0\<close> as a text that contains such a substring. It does
  not: the letter after its \<^verbatim>\<open>i\<close> is \<^verbatim>\<open>n\<close>. The test fails on it, and the alias-name
  part \<^verbatim>\<open>min0\<close> followed by a dot is returned unchanged.
\<close>

theorem min0_is_not_an_import_alias:
  "\<not> tcbAliasImportRegex_test ''min0'' \<and>
   \<not> isImportAlias (aliasPart ''min0'') \<and>
   filterAliasImports [aliasPart ''min0'', dotPart] = [aliasPart ''min0'', dotPart]"
  by code_simp

subsection \<open>Locating a template\<close>

lemma comparator_le_iff:
  "tsDeclarationSortComparator a b \<le> 0 \<longleftrightarrow>
     sourceFileName a < sourceFileName b \<or> (sourceFileName a = sourceFileName b \<and> pos b \<le> pos a)"
  by (auto simp: tsDeclarationSortComparator_def getFullStart_def Let_def)

lemma comparator_less_iff:
  "tsDeclarationSortComparator a b < 0 \<longleftrightarrow>
     sourceFileName a < sourceFileName b \<or> (sourceFileName a = sourceFileName b \<and> pos b < pos a)"
  by (auto simp: tsDeclarationSortComparator_def getFullStart_def Let_def)

lemma comparator_total:
  "tsDeclarationSortComparator a b \<le> 0 \<or> tsDeclarationSortComparator b a \<le> 0"
  unfolding comparator_le_iff by (cases "sourceFileName a" "sourceFileName b" rule: linorder_cases) auto

lemma comparator_trans:
  "tsDeclarationSortComparator a b \<le> 0 \<Longrightarrow> tsDeclarationSortComparator b c \<le> 0 \<Longrightarrow>
   tsDeclarationSortComparator a c \<le> 0"
  unfolding comparator_le_iff by (auto intro: less_trans)

lemma set_sort_insert: "set (sort_insert cmp x xs) = insert x (set xs)"
  by (induction xs) auto

lemma mset_sort_insert: "mset (sort_insert cmp x xs) = add_mset x (mset xs)"
  by (induction xs) auto

lemma mset_array_sort: "mset (array_sort cmp xs) = mset xs"
  by (induction xs) (simp_all add: array_sort_def mset_sort_insert)

lemma sorted_sort_insert:
  assumes total: "\<And>a b. cmp a b \<le> 0 \<or> cmp b a \<le> 0"
    and trans: "\<And>a b c. cmp a b \<le> 0 \<Longrightarrow> cmp b c \<le> 0 \<Longrightarrow> cmp a c \<le> 0"
    and sorted: "sorted_wrt (\<lambda>a b. cmp a b \<le> 0) xs"
  shows "sorted_wrt (\<lambda>a b. cmp a b \<le> 0) (sort_insert cmp x xs)"
  using sorted
proof (induction xs)
  case Nil
  then show ?case by simp
next
  case (Cons y ys)
  show ?case
  proof (cases "cmp x y \<le> 0")
    case True
    with Cons.prems show ?thesis by (auto intro: trans)
  next
    case False
    with total [of x y] have "cmp y x \<le> 0" by simp
    with False Cons show ?thesis by (auto simp: set_sort_insert)
  qed
qed

lemma sorted_array_sort:
  assumes total: "\<And>a b. cmp a b \<le> 0 \<or> cmp b a \<le> 0"
    and trans: "\<And>a b c. cmp a b \<le> 0 \<Longrightarrow> cmp b c \<le> 0 \<Longrightarrow> cmp a c \<le> 0"
  shows "sorted_wrt (\<lambda>a b. cmp a b \<le> 0) (array_sort cmp xs)"
proof (induction xs)
  case Nil
  then show ?case by (simp add: array_sort_def)
next
  case (Cons x xs)
  have "array_sort cmp (x # xs) = sort_insert cmp x (array_sort cmp xs)"
    by (simp add: array_sort_def)
  with Cons show ?case
    using sorted_sort_insert [of cmp "array_sort cmp xs" x, OF total trans] by simp
qed

lemma firstComponentLoop_None_iff:
  "firstComponentLoop getTpl decls = None \<longleftrightarrow>
     (\<forall>decl \<in> set decls. \<not> isClassDeclaration decl \<or> getTpl decl = None)"
  by (induction decls) (auto split: option.splits)

lemma firstComponentLoop_Some:
  "firstComponentLoop getTpl decls = Some info \<Longrightarrow>
   \<exists>before after. decls = before @ component info # after \<and>
     (\<forall>decl \<in> set before. \<not> isClassDeclaration decl \<or> getTpl decl = None) \<and>
     isClassDeclaration (component info) \<and> getTpl (component info) = Some (template info)"
proof (induction decls)
  case Nil
  then show ?case by simp
next
  case (Cons decl rest)
  show ?case
  proof (cases "isClassDeclaration decl \<and> getTpl decl \<noteq> None")
    case True
    with Cons.prems have "info = \<lparr>template = the (getTpl decl), component = decl\<rparr>"
      by (auto split: option.splits)
    with True have "decl # rest = [] @ component info # rest \<and>
        (\<forall>d \<in> set []. \<not> isClassDeclaration d \<or> getTpl d = None) \<and>
        isClassDeclaration (component info) \<and> getTpl (component info) = Some (template info)"
      by auto
    then show ?thesis by blast
  next
    case False
    with Cons.prems have "firstComponentLoop getTpl rest = Some info"
      by (auto split: option.splits if_splits)
    from Cons.IH [OF this] obtain before after where
      "rest = before @ component info # after"
      "\<forall>d \<in> set before. \<not> isClassDeclaration d \<or> getTpl d = None"
      "isClassDeclaration (component info)" "getTpl (component info) = Some (template info)"
      by blast
    with False have "decl # rest = (decl # before) @ component info # after \<and>
        (\<forall>d \<in> set (decl # before). \<not> isClassDeclaration d \<or> getTpl d = None) \<and>
        isClassDeclaration (component info) \<and> getTpl (component info) = Some (template info)"
      by auto
    then show ?thesis by blast
  qed
qed

lemma inlineLoop_stops:
  "(\<forall>s \<in> set before. \<not> isClassDeclaration s \<or> position < pos s \<or> position > end_pos s) \<Longrightarrow>
   isClassDeclaration statement \<Longrightarrow> pos statement \<le> position \<Longrightarrow> position \<le> end_pos statement \<Longrightarrow>
   inlineLoop getTpl position (before @ statement # rest) =
     (case getTpl statement of
        None \<Rightarrow> None
      | Some tpl \<Rightarrow> Some \<lparr>template = tpl, component = statement\<rparr>)"
  by (induction before) auto

lemma inlineLoop_skips:
  "(\<forall>s \<in> set sts. \<not> isClassDeclaration s \<or> position < pos s \<or> position > end_pos s) \<Longrightarrow>
   inlineLoop getTpl position sts = None"
  by (induction sts) auto

lemma inlineLoop_Some:
  "inlineLoop getTpl position sts = Some info \<Longrightarrow>
   component info \<in> set sts \<and> isClassDeclaration (component info) \<and>
   pos (component info) \<le> position \<and> position \<le> end_pos (component info) \<and>
   getTpl (component info) = Some (template info)"
  by (induction sts) (auto split: if_splits option.splits)

text \<open>
  Claim C4. For a file name that does not end in \<^verbatim>\<open>.ts\<close> the locator works in external
  mode. There the declarations of the template file are sorted by a
  comparator that puts a first before b exactly when a's file path is the smaller one or,
  in the same file, a starts later; any two declarations are comparable. The sorted list is
  a rearrangement of the candidates, ordered by ascending file path and, within a file, by
  descending start offset. The result is the first class declaration of that list for
  which the type checker has a template, every declaration before it being no class or
  without a template; there is no result exactly when no candidate is a class with a
  template.
\<close>

theorem getFirstComponentForTemplateFile_sorted_first:
  "(tsDeclarationSortComparator a b < 0 \<longleftrightarrow>
      sourceFileName a < sourceFileName b \<or>
      (sourceFileName a = sourceFileName b \<and> getFullStart b < getFullStart a)) \<and>
   (tsDeclarationSortComparator a b \<le> 0 \<or> tsDeclarationSortComparator b a \<le> 0) \<and>
   mset (array_sort tsDeclarationSortComparator (getComponentsWithTemplateFile compiler fname))
     = mset (getComponentsWithTemplateFile compiler fname) \<and>
   sorted_wrt
     (\<lambda>a b. sourceFileName a < sourceFileName b \<or>
            (sourceFileName a = sourceFileName b \<and> getFullStart b \<le> getFullStart a))
     (array_sort tsDeclarationSortComparator (getComponentsWithTemplateFile compiler fname)) \<and>
   (getFirstComponentForTemplateFile fname compiler = None \<longleftrightarrow>
      (\<forall>decl \<in> set (getComponentsWithTemplateFile compiler fname).
         \<not> isClassDeclaration decl \<or> getTemplate compiler decl = None)) \<and>
   (getFirstComponentForTemplateFile fname compiler = Some info \<longrightarrow>
      (\<exists>before after.
         array_sort tsDeclarationSortComparator (getComponentsWithTemplateFile compiler fname)
           = before @ component info # after \<and>
         (\<forall>decl \<in> set before. \<not> isClassDeclaration decl \<or> getTemplate compiler decl = None) \<and>
         isClassDeclaration (component info) \<and>
         getTemplate compiler (component info) = Some (template info))) \<and>
   (\<not> endsWith fname ''.ts'' \<longrightarrow>
      getTemplateInfoAtPosition fname position compiler = getFirstComponentForTemplateFile fname compiler)"
proof (intro conjI)
  show "tsDeclarationSortComparator a b < 0 \<longleftrightarrow>
      sourceFileName a < sourceFileName b \<or>
      (sourceFileName a = sourceFileName b \<and> getFullStart b < getFullStart a)"
    by (simp add: comparator_less_iff getFullStart_def)
  show "tsDeclarationSortComparator a b \<le> 0 \<or> tsDeclarationSortComparator b a \<le> 0"
    by (rule comparator_total)
  show "mset (array_sort tsDeclarationSortComparator (getComponentsWithTemplateFile compiler fname))
     = mset (getComponentsWithTemplateFile compiler fname)"
    by (rule mset_array_sort)
  have "sorted_wrt (\<lambda>a b. tsDeclarationSortComparator a b \<le> 0)
     (array_sort tsDeclarationSortComparator (getComponentsWithTemplateFile compiler fname))"
    by (rule sorted_array_sort [OF comparator_total comparator_trans])
  then show "sorted_wrt
     (\<lambda>a b. sourceFileName a < sourceFileName b \<or>
            (sourceFileName a = sourceFileName b \<and> getFullStart b \<le> getFullStart a))
     (array_sort tsDeclarationSortComparator (getComponentsWithTemplateFile compiler fname))"
    by (simp only: comparator_le_iff getFullStart_def)
  have "set (array_sort tsDeclarationSortComparator (getComponentsWithTemplateFile compiler fname))
      = set (getComponentsWithTemplateFile compiler fname)"
    using mset_array_sort [of tsDeclarationSortComparator "getComponentsWithTemplateFile compiler fname"]
    by (rule mset_eq_setD)
  then show "getFirstComponentForTemplateFile fname compiler = None \<longleftrightarrow>
      (\<forall>decl \<in> set (getComponentsWithTemplateFile compiler fname).
         \<not> isClassDeclaration decl \<or> getTemplate compiler decl = None)"
    by (simp add: getFirstComponentForTemplateFile_def Let_def firstComponentLoop_None_iff)
  show "getFirstComponentForTemplateFile fname compiler = Some info \<longrightarrow>
      (\<exists>before after.
         array_sort tsDeclarationSortComparator (getComponentsWithTemplateFile compiler fname)
           = before @ component info # after \<and>
         (\<forall>decl \<in> set before. \<not> isClassDeclaration decl \<or> getTemplate compiler decl = None) \<and>
         isClassDeclaration (component info) \<and>
         getTemplate compiler (component info) = Some (template info))"
    using firstComponentLoop_Some
      [of "getTemplate compiler"
          "array_sort tsDeclarationSortComparator (getComponentsWithTemplateFile compiler fname)" info]
    by (simp add: getFirstComponentForTemplateFile_def Let_def)
  show "\<not> endsWith fname ''.ts'' \<longrightarrow>
      getTemplateInfoAtPosition fname position compiler = getFirstComponentForTemplateFile fname compiler"
    by (simp add: getTemplateInfoAtPosition_def)
qed

text \<open>
  Witness for C4, on the example compiler: the four candidates of \<^verbatim>\<open>app.html\<close> are sorted into
  the function at 100, the class at 50 and the class at 5 of \<^verbatim>\<open>a.ts\<close>, then the class of
  \<^verbatim>\<open>b.ts\<close>. The function is no class and the class at 50 has no template, so the class at
  5 is the result.
\<close>

theorem getFirstComponentForTemplateFile_sorted_first_witness:
  "getComponentsWithTemplateFile exampleCompiler ''app.html''
     = [libComponent, earlyComponent, lateComponent, helperFunction] \<and>
   array_sort tsDeclarationSortComparator (getComponentsWithTemplateFile exampleCompiler ''app.html'')
     = [helperFunction, lateComponent, earlyComponent, libComponent] \<and>
   sourceFileName earlyComponent < sourceFileName libComponent \<and>
   tsDeclarationSortComparator earlyComponent libComponent < 0 \<and>
   getFirstComponentForTemplateFile ''app.html'' exampleCompiler
     = Some \<lparr>template = appTemplate, component = earlyComponent\<rparr> \<and>
   (\<exists>before after.
      array_sort tsDeclarationSortComparator (getComponentsWithTemplateFile exampleCompiler ''app.html'')
        = before @ earlyComponent # after \<and>
      (\<forall>decl \<in> set before. \<not> isClassDeclaration decl \<or> getTemplate exampleCompiler decl = None) \<and>
      isClassDeclaration earlyComponent \<and>
      getTemplate exampleCompiler earlyComponent = Some appTemplate) \<and>
   \<not> endsWith ''app.html'' ''.ts'' \<and>
   getTemplateInfoAtPosition ''app.html'' 7 exampleCompiler
     = Some \<lparr>template = appTemplate, component = earlyComponent\<rparr>"
proof -
  note inst = getFirstComponentForTemplateFile_sorted_first
    [of earlyComponent libComponent exampleCompiler "''app.html''"
        "\<lparr>template = appTemplate, component = earlyComponent\<rparr>" 7]
  have candidates: "getComponentsWithTemplateFile exampleCompiler ''app.html''
     = [libComponent, earlyComponent, lateComponent, helperFunction]"
    by code_simp
  have sorted: "array_sort tsDeclarationSortComparator (getComponentsWithTemplateFile exampleCompiler ''app.html'')
     = [helperFunction, lateComponent, earlyComponent, libComponent]"
    by code_simp
  have files: "sourceFileName earlyComponent < sourceFileName libComponent"
    by code_simp
  from files have "sourceFileName earlyComponent < sourceFileName libComponent \<or>
      (sourceFileName earlyComponent = sourceFileName libComponent \<and>
       getFullStart libComponent < getFullStart earlyComponent)"
    by (rule disjI1)
  with inst [THEN conjunct1] have first: "tsDeclarationSortComparator earlyComponent libComponent < 0"
    by (rule iffD2)
  have result: "getFirstComponentForTemplateFile ''app.html'' exampleCompiler
     = Some \<lparr>template = appTemplate, component = earlyComponent\<rparr>"
    by code_simp
  have position: "\<exists>before after.
      array_sort tsDeclarationSortComparator (getComponentsWithTemplateFile exampleCompiler ''app.html'')
        = before @ earlyComponent # after \<and>
      (\<forall>decl \<in> set before. \<not> isClassDeclaration decl \<or> getTemplate exampleCompiler decl = None) \<and>
      isClassDeclaration earlyComponent \<and>
      getTemplate exampleCompiler earlyComponent = Some appTemplate"
    using inst [THEN conjunct2, THEN conjunct2, THEN conjunct2, THEN conjunct2, THEN conjunct2,
                 THEN conjunct1, unfolded TemplateInfo.select_convs] result
    by (rule mp)
  have external: "\<not> endsWith ''app.html'' ''.ts''"
    by code_simp
  have "getTemplateInfoAtPosition ''app.html'' 7 exampleCompiler
      = getFirstComponentForTemplateFile ''app.html'' exampleCompiler"
    using inst [THEN conjunct2, THEN conjunct2, THEN conjunct2, THEN conjunct2, THEN conjunct2,
                 THEN conjunct2] external
    by (rule mp)
  with result have located: "getTemplateInfoAtPosition ''app.html'' 7 exampleCompiler
      = Some \<lparr>template = appTemplate, component = earlyComponent\<rparr>"
    by (simp only:)
  from candidates sorted files first result position external located show ?thesis by (intro conjI)
qed

text \<open>
  Claim C6, as amended. For a file name that ends in \<^verbatim>\<open>.ts\<close> the locator works in
  inline mode, where only the statements of the source file are walked. When the first
  class declaration in statement order whose range holds the position has no template, the
  result is not-found, whatever statements follow. A result is always one of the top-level
  statements, a class declaration whose range holds the position, with its template; and
  when no top-level statement is such a class declaration, the result is not-found,
  whatever is nested in the statements.
\<close>

theorem getInlineTemplateInfoAtPosition_stops:
  "(getSourceFile compiler fname = Some sourceFile \<and>
    statements sourceFile = before @ statement # rest \<and>
    (\<forall>s \<in> set before. \<not> isClassDeclaration s \<or> position < pos s \<or> position > end_pos s) \<and>
    isClassDeclaration statement \<and> pos statement \<le> position \<and> position \<le> end_pos statement \<and>
    getTemplate compiler statement = None \<longrightarrow>
      getInlineTemplateInfoAtPosition fname position compiler = None) \<and>
   (getInlineTemplateInfoAtPosition fname position compiler = Some info \<longrightarrow>
      (\<exists>sf. getSourceFile compiler fname = Some sf \<and> component info \<in> set (statements sf)) \<and>
      isClassDeclaration (component info) \<and>
      pos (component info) \<le> position \<and> position \<le> end_pos (component info) \<and>
      getTemplate compiler (component info) = Some (template info)) \<and>
   (getSourceFile compiler fname = Some sourceFile \<and>
    (\<forall>s \<in> set (statements sourceFile).
       \<not> isClassDeclaration s \<or> position < pos s \<or> position > end_pos s) \<longrightarrow>
      getInlineTemplateInfoAtPosition fname position compiler = None) \<and>
   (endsWith fname ''.ts'' \<longrightarrow>
      getTemplateInfoAtPosition fname position compiler
        = getInlineTemplateInfoAtPosition fname position compiler)"
proof (intro conjI impI)
  assume h: "getSourceFile compiler fname = Some sourceFile \<and>
    statements sourceFile = before @ statement # rest \<and>
    (\<forall>s \<in> set before. \<not> isClassDeclaration s \<or> position < pos s \<or> position > end_pos s) \<and>
    isClassDeclaration statement \<and> pos statement \<le> position \<and> position \<le> end_pos statement \<and>
    getTemplate compiler statement = None"
  then have "inlineLoop (getTemplate compiler) position (before @ statement # rest) = None"
    using inlineLoop_stops [of before position statement "getTemplate compiler" rest] by simp
  with h show "getInlineTemplateInfoAtPosition fname position compiler = None"
    by (simp add: getInlineTemplateInfoAtPosition_def)
next
  assume h: "getInlineTemplateInfoAtPosition fname position compiler = Some info"
  then obtain sf where sf: "getSourceFile compiler fname = Some sf"
    and loop: "inlineLoop (getTemplate compiler) position (statements sf) = Some info"
    by (auto simp: getInlineTemplateInfoAtPosition_def split: option.splits)
  note found = inlineLoop_Some [OF loop]
  from sf found show "\<exists>sf. getSourceFile compiler fname = Some sf \<and> component info \<in> set (statements sf)"
    by blast
  from found show "isClassDeclaration (component info)" by simp
  from found show "pos (component info) \<le> position" by simp
  from found show "position \<le> end_pos (component info)" by simp
  from found show "getTemplate compiler (component info) = Some (template info)" by simp
next
  assume h: "getSourceFile compiler fname = Some sourceFile \<and>
    (\<forall>s \<in> set (statements sourceFile).
       \<not> isClassDeclaration s \<or> position < pos s \<or> position > end_pos s)"
  then have "inlineLoop (getTemplate compiler) position (statements sourceFile) = None"
    using inlineLoop_skips [of "statements sourceFile" position "getTemplate compiler"] by simp
  with h show "getInlineTemplateInfoAtPosition fname position compiler = None"
    by (simp add: getInlineTemplateInfoAtPosition_def)
next
  assume "endsWith fname ''.ts''"
  then show "getTemplateInfoAtPosition fname position compiler
      = getInlineTemplateInfoAtPosition fname position compiler"
    by (simp add: getTemplateInfoAtPosition_def)
qed

text \<open>
  Witness for C6 as amended, on the example compiler. Position 50 of \<^verbatim>\<open>app.ts\<close> lies in the class at
  10..50, which has no template, and in the class at 50..90 after it, which has one: the
  result is not-found. Position 5 lies in no top-level class, only in the class nested in
  the function at 0..10, which has a template: the result is not-found as well.
\<close>

theorem getInlineTemplateInfoAtPosition_stops_witness:
  "getSourceFile exampleCompiler ''app.ts''
     = Some \<lparr>fileName = ''app.ts'', statements = [outerFunction, emptyClass, nextClass]\<rparr> \<and>
   isClassDeclaration emptyClass \<and> pos emptyClass \<le> 50 \<and> 50 \<le> end_pos emptyClass \<and>
   getTemplate exampleCompiler emptyClass = None \<and>
   isClassDeclaration nextClass \<and> pos nextClass \<le> 50 \<and> 50 \<le> end_pos nextClass \<and>
   getTemplate exampleCompiler nextClass = Some appTemplate \<and>
   getInlineTemplateInfoAtPosition ''app.ts'' 50 exampleCompiler = None \<and>
   children outerFunction = [nestedClass] \<and>
   isClassDeclaration nestedClass \<and> pos nestedClass \<le> 5 \<and> 5 \<le> end_pos nestedClass \<and>
   getTemplate exampleCompiler nestedClass = Some appTemplate \<and>
   getInlineTemplateInfoAtPosition ''app.ts'' 5 exampleCompiler = None \<and>
   endsWith ''app.ts'' ''.ts'' \<and>
   getTemplateInfoAtPosition ''app.ts'' 50 exampleCompiler = None"
proof -
  note inst50 = getInlineTemplateInfoAtPosition_stops
    [of exampleCompiler "''app.ts''"
        "\<lparr>fileName = ''app.ts'', statements = [outerFunction, emptyClass, nextClass]\<rparr>"
        "[outerFunction]" emptyClass "[nextClass]" 50]
  note inst5 = getInlineTemplateInfoAtPosition_stops
    [of exampleCompiler "''app.ts''"
        "\<lparr>fileName = ''app.ts'', statements = [outerFunction, emptyClass, nextClass]\<rparr>"
        _ _ _ 5]
  have src_file: "getSourceFile exampleCompiler ''app.ts''
     = Some \<lparr>fileName = ''app.ts'', statements = [outerFunction, emptyClass, nextClass]\<rparr>"
    by code_simp
  have split: "statements \<lparr>fileName = ''app.ts'', statements = [outerFunction, emptyClass, nextClass]\<rparr>
     = [outerFunction] @ emptyClass # [nextClass]"
    by simp
  have skipped: "\<forall>s \<in> set [outerFunction]. \<not> isClassDeclaration s \<or> 50 < pos s \<or> 50 > end_pos s"
    by code_simp
  have empty: "isClassDeclaration emptyClass \<and> pos emptyClass \<le> 50 \<and> 50 \<le> end_pos emptyClass \<and>
     getTemplate exampleCompiler emptyClass = None"
    by code_simp
  have later: "isClassDeclaration nextClass \<and> pos nextClass \<le> 50 \<and> 50 \<le> end_pos nextClass \<and>
     getTemplate exampleCompiler nextClass = Some appTemplate"
    by code_simp
  have at50: "getInlineTemplateInfoAtPosition ''app.ts'' 50 exampleCompiler = None"
    using inst50 [THEN conjunct1] src_file split skipped empty by blast
  have nested: "children outerFunction = [nestedClass] \<and>
     isClassDeclaration nestedClass \<and> pos nestedClass \<le> 5 \<and> 5 \<le> end_pos nestedClass \<and>
     getTemplate exampleCompiler nestedClass = Some appTemplate"
    by code_simp
  have top_level: "\<forall>s \<in> set (statements \<lparr>fileName = ''app.ts'', statements = [outerFunction, emptyClass, nextClass]\<rparr>).
       \<not> isClassDeclaration s \<or> 5 < pos s \<or> 5 > end_pos s"
    by code_simp
  have at5: "getInlineTemplateInfoAtPosition ''app.ts'' 5 exampleCompiler = None"
    using inst5 [THEN conjunct2, THEN conjunct2, THEN conjunct1] src_file top_level by blast
  have inline: "endsWith ''app.ts'' ''.ts''"
    by code_simp
  have "getTemplateInfoAtPosition ''app.ts'' 50 exampleCompiler
      = getInlineTemplateInfoAtPosition ''app.ts'' 50 exampleCompiler"
    using inst50 [THEN conjunct2, THEN conjunct2, THEN conjunct2] inline by (rule mp)
  with at50 have located: "getTemplateInfoAtPosition ''app.ts'' 50 exampleCompiler = None"
    by simp
  from src_file empty later at50 nested at5 inline located show ?thesis by blast
qed

text \<open>
  Counterexample to C6 as stated. In \<^verbatim>\<open>pair.ts\<close> position 50 lies within the top-level
  class at 50..90, for which the type checker has no template; it also lies within the
  class at 10..50 before it, which has one. The locator does not return not-found: it
  returns the first class with its template.
\<close>

theorem getInlineTemplateInfoAtPosition_earlier_class_wins:
  "endsWith ''pair.ts'' ''.ts'' \<and>
   getSourceFile pairCompiler ''pair.ts''
     = Some \<lparr>fileName = ''pair.ts'', statements = [templatedClass, untemplatedClass]\<rparr> \<and>
   isClassDeclaration untemplatedClass \<and>
   pos untemplatedClass \<le> 50 \<and> 50 \<le> end_pos untemplatedClass \<and>
   getTemplate pairCompiler untemplatedClass = None \<and>
   getInlineTemplateInfoAtPosition ''pair.ts'' 50 pairCompiler
     = Some \<lparr>template = appTemplate, component = templatedClass\<rparr> \<and>
   getInlineTemplateInfoAtPosition ''pair.ts'' 50 pairCompiler \<noteq> None \<and>
   getTemplateInfoAtPosition ''pair.ts'' 50 pairCompiler \<noteq> None"
  by code_simp

end
